theory Spec2Isabelle
  imports Complex_Main "HOL-Library.AList"
begin

section \<open>JavaScript values used by the cache layer\<close>

text \<open>
  Strings are lists of code units; a \<^typ>\<open>char\<close> stands for a code unit below 256.
  The white space that \<^verbatim>\<open>String.prototype.trim\<close>, \<^verbatim>\<open>parseInt\<close> and
  \<^verbatim>\<open>parseFloat\<close> skip is, in that range: TAB, LF, VT, FF, CR, SPACE and NBSP.
\<close>

definition isWhiteSpace :: "char \<Rightarrow> bool" where
  "isWhiteSpace c \<longleftrightarrow> c \<in> set [CHR 0x09, CHR 0x0A, CHR 0x0B, CHR 0x0C, CHR 0x0D, CHR 0x20, CHR 0xA0]"

definition trimStart :: "string \<Rightarrow> string" where
  "trimStart s = dropWhile isWhiteSpace s"

definition trim :: "string \<Rightarrow> string" where
  "trim s = rev (dropWhile isWhiteSpace (rev (dropWhile isWhiteSpace s)))"

definition isDigit :: "char \<Rightarrow> bool" where
  "isDigit c \<longleftrightarrow> c \<in> set ''0123456789''"

definition isHexDigit :: "char \<Rightarrow> bool" where
  "isHexDigit c \<longleftrightarrow> c \<in> set ''0123456789abcdefABCDEF''"

definition digit_char :: "nat \<Rightarrow> char" where
  "digit_char d = ''0123456789'' ! d"

definition digit_val :: "char \<Rightarrow> nat" where
  "digit_val c = of_char c - 48"

definition hex_val :: "char \<Rightarrow> nat" where
  "hex_val c =
     (if isDigit c then of_char c - 48
      else if c \<in> set ''abcdef'' then of_char c - 87
      else of_char c - 55)"

text \<open>Decimal digits of a natural number, and the value of a digit string in a radix.\<close>

fun nat_digits :: "nat \<Rightarrow> string" where
  "nat_digits n = (if n < 10 then [digit_char n] else nat_digits (n div 10) @ [digit_char (n mod 10)])"

declare nat_digits.simps [simp del]

definition parse_nat :: "string \<Rightarrow> nat" where
  "parse_nat ds = foldl (\<lambda>acc c. acc * 10 + digit_val c) 0 ds"

definition parse_hex :: "string \<Rightarrow> nat" where
  "parse_hex ds = foldl (\<lambda>acc c. acc * 16 + hex_val c) 0 ds"

text \<open>
  A JavaScript number is modelled by what \<^verbatim>\<open>Number.prototype.toString\<close> prints of it:
  \<open>Finite neg ds n\<close> is the value with decimal digits \<open>ds\<close> (first and last digit not
  zero) and decimal point after the \<open>n\<close>-th digit, that is \<open>0.ds \<times> 10^n\<close>, negated when
  \<open>neg\<close>. These are the integers \<open>s\<close>, \<open>k = length ds\<close> and \<open>n\<close> of the language
  definition of \<^verbatim>\<open>Number::toString\<close>. The two zeros of JavaScript, which compare equal
  and print alike, are the one value \<open>Zero\<close>. The rounding of a decimal literal to the
  nearest double and the overflow of the exponent range are not modelled; no arithmetic is
  done on these numbers by the code below, only conversion and comparison with zero.
\<close>

datatype number = NaN | Infinity bool | Zero | Finite bool string int

definition is_number :: "number \<Rightarrow> bool" where
  "is_number x =
     (case x of
        Finite neg ds n \<Rightarrow> ds \<noteq> [] \<and> list_all isDigit ds \<and> hd ds \<noteq> CHR ''0'' \<and> last ds \<noteq> CHR ''0''
      | _ \<Rightarrow> True)"

definition isNaN :: "number \<Rightarrow> bool" where
  "isNaN x \<longleftrightarrow> x = NaN"

definition le_zero :: "number \<Rightarrow> bool" where
  "le_zero x = (case x of NaN \<Rightarrow> False | Infinity neg \<Rightarrow> neg | Zero \<Rightarrow> True | Finite neg ds n \<Rightarrow> neg)"

definition lt_zero :: "number \<Rightarrow> bool" where
  "lt_zero x = (case x of NaN \<Rightarrow> False | Infinity neg \<Rightarrow> neg | Zero \<Rightarrow> False | Finite neg ds n \<Rightarrow> neg)"

definition is_finite :: "number \<Rightarrow> bool" where
  "is_finite x = (case x of NaN \<Rightarrow> False | Infinity neg \<Rightarrow> False | _ \<Rightarrow> True)"

definition is_integer :: "number \<Rightarrow> bool" where
  "is_integer x = (case x of Zero \<Rightarrow> True | Finite neg ds n \<Rightarrow> int (length ds) \<le> n | _ \<Rightarrow> False)"

text \<open>\<^verbatim>\<open>Number::toString\<close> in radix 10, step by step as the language defines it.\<close>

definition exponent_toString :: "int \<Rightarrow> string" where
  "exponent_toString e = (if e < 0 then ''-'' else ''+'') @ nat_digits (nat \<bar>e\<bar>)"

definition finite_toString :: "string \<Rightarrow> int \<Rightarrow> string" where
  "finite_toString ds n =
     (let k = int (length ds) in
      if k \<le> n \<and> n \<le> 21 then ds @ replicate (nat (n - k)) CHR ''0''
      else if 0 < n \<and> n \<le> 21 then take (nat n) ds @ ''.'' @ drop (nat n) ds
      else if - 6 < n \<and> n \<le> 0 then ''0.'' @ replicate (nat (- n)) CHR ''0'' @ ds
      else if k = 1 then ds @ ''e'' @ exponent_toString (n - 1)
      else hd ds # ''.'' @ tl ds @ ''e'' @ exponent_toString (n - 1))"

definition toString :: "number \<Rightarrow> string" where
  "toString x =
     (case x of
        NaN \<Rightarrow> ''NaN''
      | Zero \<Rightarrow> ''0''
      | Infinity neg \<Rightarrow> (if neg then ''-Infinity'' else ''Infinity'')
      | Finite neg ds n \<Rightarrow> (if neg then ''-'' else '''') @ finite_toString ds n)"

text \<open>
  The number with digit string \<open>ds\<close> and decimal point after the \<open>n\<close>-th digit, brought
  to the form without leading and trailing zeros.
\<close>

definition mk_number :: "bool \<Rightarrow> string \<Rightarrow> int \<Rightarrow> number" where
  "mk_number neg ds n =
     (let lead = takeWhile (\<lambda>c. c = CHR ''0'') ds;
          ds1 = dropWhile (\<lambda>c. c = CHR ''0'') ds;
          ds2 = rev (dropWhile (\<lambda>c. c = CHR ''0'') (rev ds1))
      in if ds2 = [] then Zero else Finite neg ds2 (n - int (length lead)))"

definition strip_sign :: "string \<Rightarrow> bool \<times> string" where
  "strip_sign s =
     (case s of
        [] \<Rightarrow> (False, [])
      | c # r \<Rightarrow> if c = CHR ''-'' then (True, r) else if c = CHR ''+'' then (False, r) else (False, s))"

definition starts_with :: "string \<Rightarrow> string \<Rightarrow> bool" where
  "starts_with p s \<longleftrightarrow> take (length p) s = p"

text \<open>The exponent part of a decimal literal: it counts only when digits follow.\<close>

definition exponent_part :: "string \<Rightarrow> int" where
  "exponent_part s =
     (case s of
        [] \<Rightarrow> 0
      | c # r \<Rightarrow>
          if c = CHR ''e'' \<or> c = CHR ''E'' then
            (let (eneg, r') = strip_sign r; ed = takeWhile isDigit r'
             in if ed = [] then 0 else if eneg then - int (parse_nat ed) else int (parse_nat ed))
          else 0)"

text \<open>
  \<^verbatim>\<open>parseFloat\<close>: skip leading white space, then read the longest prefix that is a
  decimal literal (sign, \<^verbatim>\<open>Infinity\<close>, or digits with an optional fraction and exponent);
  \<open>NaN\<close> when there is none.
\<close>

definition parseFloat :: "string \<Rightarrow> number" where
  "parseFloat input =
     (let (neg, s1) = strip_sign (trimStart input) in
      if starts_with ''Infinity'' s1 then Infinity neg
      else
        (let ip = takeWhile isDigit s1;
             r1 = dropWhile isDigit s1;
             (fp, r2) = (case r1 of
                           [] \<Rightarrow> ([], [])
                         | c # r \<Rightarrow> if c = CHR ''.'' then (takeWhile isDigit r, dropWhile isDigit r)
                                    else ([], r1))
         in if ip = [] \<and> fp = [] then NaN
            else mk_number neg (ip @ fp) (int (length ip) + exponent_part r2)))"

text \<open>
  \<^verbatim>\<open>parseInt\<close> without a radix: skip leading white space, read a sign, switch to
  radix 16 after a \<^verbatim>\<open>0x\<close> prefix, then read the longest run of digits of the radix;
  \<open>NaN\<close> when the run is empty.
\<close>

definition parseInt :: "string \<Rightarrow> number" where
  "parseInt input =
     (let (neg, s1) = strip_sign (trimStart input) in
      if starts_with ''0x'' s1 \<or> starts_with ''0X'' s1 then
        (let z = takeWhile isHexDigit (drop 2 s1)
         in if z = [] then NaN
            else (let ds = nat_digits (parse_hex z) in mk_number neg ds (int (length ds))))
      else
        (let z = takeWhile isDigit s1
         in if z = [] then NaN else mk_number neg z (int (length z))))"


section \<open>Errors\<close>

text \<open>
  Exceptions are values. \<open>Error\<close> is the plain \<^verbatim>\<open>Error\<close> of the language,
  \<open>SyntaxError\<close> what \<^verbatim>\<open>JSON.parse\<close> throws, \<open>QueryFailedError\<close> a failure of the
  persistence layer with its optional \<^verbatim>\<open>code\<close>; the others are the classes of
  \<^verbatim>\<open>utils/cache-errors.ts\<close> and \<^verbatim>\<open>utils/errors.ts\<close>. \<open>Undefined\<close> is the value
  \<^verbatim>\<open>undefined\<close>, which \<^verbatim>\<open>throw lastError\<close> throws when no attempt has run.
\<close>

datatype exn =
    Error string
  | SyntaxError string
  | QueryFailedError "string option" string
  | CacheConnectionError string
  | CacheOperationError string string exn
  | CacheDataError string
  | ConflictError string
  | DatabaseError string string
  | Undefined

fun message :: "exn \<Rightarrow> string" where
  "message (Error m) = m"
| "message (SyntaxError m) = m"
| "message (QueryFailedError c m) = m"
| "message (CacheConnectionError m) = m"
| "message (CacheOperationError m operation originalError) = m"
| "message (CacheDataError m) = m"
| "message (ConflictError m) = m"
| "message (DatabaseError m d) = m"
| "message Undefined = ''undefined''"

section \<open>Data model\<close>

record Product =
  id' :: number
  name :: string
  price :: number
  category :: string

text \<open>\<^verbatim>\<open>Partial<Product>\<close>: a field is \<open>None\<close> when it is \<^verbatim>\<open>undefined\<close>.\<close>

record PartialProduct =
  id_opt :: "number option"
  name_opt :: "string option"
  price_opt :: "number option"
  category_opt :: "string option"

record CacheOptions =
  ttl :: "int option"
  prefix :: "string option"
  useHash :: "bool option"

definition no_options :: CacheOptions where
  "no_options = \<lparr>ttl = None, prefix = None, useHash = None\<rparr>"

text \<open>
  The counters are natural numbers; the hit rate is an exact rational (the rounding of the
  floating-point division is not modelled).
\<close>

record CacheStats =
  hits :: nat
  misses :: nat
  operations :: nat
  errors :: nat
  retries :: nat
  hitRate :: rat

record RetryConfig =
  maxRetries :: nat
  initialDelay :: nat
  backoffFactor :: nat
  maxDelay :: nat

text \<open>The environment-sourced configuration (\<^verbatim>\<open>config/cache.config.ts\<close>), in seconds.\<close>

record CacheConfig =
  productTTL :: int
  productListTTL :: int
  defaultTTL :: int

definition CACHE_PREFIX :: string where "CACHE_PREFIX = ''product''"
definition HASH_PREFIX :: string where "HASH_PREFIX = ''products_hash''"
definition LIST_PREFIX :: string where "LIST_PREFIX = ''products_list''"

definition retryConfig :: RetryConfig where
  "retryConfig = \<lparr>maxRetries = 3, initialDelay = 100, backoffFactor = 2, maxDelay = 1000\<rparr>"

definition initial_stats :: CacheStats where
  "initial_stats = \<lparr>hits = 0, misses = 0, operations = 0, errors = 0, retries = 0, hitRate = 0\<rparr>"

section \<open>The cache backend\<close>

text \<open>
  \<^verbatim>\<open>JSON.stringify\<close> and \<^verbatim>\<open>JSON.parse\<close> are library functions: the text they exchange
  is modelled by the document it encodes. \<open>Text s\<close> is any other string; parsing it as a
  product or a product list raises \<open>SyntaxError\<close>.
\<close>

datatype json_text = Json_product Product | Json_products "Product list" | Text string

definition truthy :: "json_text \<Rightarrow> bool" where
  "truthy t = (case t of Text s \<Rightarrow> s \<noteq> [] | _ \<Rightarrow> True)"

definition JSON_parse_Product :: "json_text \<Rightarrow> exn + Product" where
  "JSON_parse_Product t =
     (case t of Json_product p \<Rightarrow> Inr p | _ \<Rightarrow> Inl (SyntaxError ''Unexpected token in JSON''))"

definition JSON_parse_Products :: "json_text \<Rightarrow> exn + Product list" where
  "JSON_parse_Products t =
     (case t of Json_products ps \<Rightarrow> Inr ps | _ \<Rightarrow> Inl (SyntaxError ''Unexpected token in JSON''))"

text \<open>
  A key holds a hash (field and value pairs) or a string, with an optional time to live
  in seconds. The commands follow the backend's documented behaviour: a command on a key
  of the other type fails with \<^verbatim>\<open>WRONGTYPE\<close>, \<^verbatim>\<open>EXPIRE\<close> with a time that is not
  positive deletes the key, \<^verbatim>\<open>SETEX\<close> with such a time fails, \<^verbatim>\<open>DEL\<close> of an absent
  key is not an error. The passing of time is not modelled: no key expires by itself.
\<close>

datatype redis_value = HashValue "(string \<times> string) list" | StringValue json_text

type_synonym entry = "redis_value \<times> int option"
type_synonym store = "(string \<times> entry) list"

definition WRONGTYPE :: exn where
  "WRONGTYPE = Error ''WRONGTYPE Operation against a key holding the wrong kind of value''"

definition set_fields :: "(string \<times> string) list \<Rightarrow> (string \<times> string) list \<Rightarrow> (string \<times> string) list" where
  "set_fields fvs h = fold (\<lambda>(f, v). AList.update f v) fvs h"

definition redis_hSet :: "string \<Rightarrow> (string \<times> string) list \<Rightarrow> store \<Rightarrow> exn + (nat \<times> store)" where
  "redis_hSet key fvs s =
     (if fvs = [] then Inl (Error ''ERR wrong number of arguments for hset command'')
      else case map_of s key of
        None \<Rightarrow> Inr (length (remdups (map fst fvs)), AList.update key (HashValue (set_fields fvs []), None) s)
      | Some (HashValue h, t) \<Rightarrow>
          Inr (length (filter (\<lambda>f. map_of h f = None) (remdups (map fst fvs))),
               AList.update key (HashValue (set_fields fvs h), t) s)
      | Some (StringValue v, t) \<Rightarrow> Inl WRONGTYPE)"

definition redis_expire :: "string \<Rightarrow> int \<Rightarrow> store \<Rightarrow> exn + (bool \<times> store)" where
  "redis_expire key seconds s =
     (case map_of s key of
        None \<Rightarrow> Inr (False, s)
      | Some (v, t) \<Rightarrow>
          if seconds \<le> 0 then Inr (True, AList.delete key s)
          else Inr (True, AList.update key (v, Some seconds) s))"

definition redis_hGetAll :: "string \<Rightarrow> store \<Rightarrow> exn + ((string \<times> string) list \<times> store)" where
  "redis_hGetAll key s =
     (case map_of s key of
        None \<Rightarrow> Inr ([], s)
      | Some (HashValue h, t) \<Rightarrow> Inr (h, s)
      | Some (StringValue v, t) \<Rightarrow> Inl WRONGTYPE)"

definition redis_get :: "string \<Rightarrow> store \<Rightarrow> exn + (json_text option \<times> store)" where
  "redis_get key s =
     (case map_of s key of
        None \<Rightarrow> Inr (None, s)
      | Some (StringValue v, t) \<Rightarrow> Inr (Some v, s)
      | Some (HashValue h, t) \<Rightarrow> Inl WRONGTYPE)"

definition redis_setEx :: "string \<Rightarrow> int \<Rightarrow> json_text \<Rightarrow> store \<Rightarrow> exn + (unit \<times> store)" where
  "redis_setEx key seconds v s =
     (if seconds \<le> 0 then Inl (Error ''ERR invalid expire time in setex command'')
      else Inr ((), AList.update key (StringValue v, Some seconds) s))"

fun del_keys :: "string list \<Rightarrow> store \<Rightarrow> nat \<times> store" where
  "del_keys [] s = (0, s)"
| "del_keys (k # ks) s =
     (case map_of s k of
        None \<Rightarrow> del_keys ks s
      | Some e \<Rightarrow> (let (n, s') = del_keys ks (AList.delete k s) in (Suc n, s')))"

declare del_keys.simps [simp del]

definition redis_del :: "string list \<Rightarrow> store \<Rightarrow> exn + (nat \<times> store)" where
  "redis_del keys s =
     (if keys = [] then Inl (Error ''ERR wrong number of arguments for del command'')
      else Inr (del_keys keys s))"

text \<open>Glob patterns of \<^verbatim>\<open>SCAN MATCH\<close>: \<^verbatim>\<open>*\<close> and \<^verbatim>\<open>?\<close>; every other character is literal.\<close>

fun glob :: "string \<Rightarrow> string \<Rightarrow> bool" where
  "glob [] s = (s = [])"
| "glob (p # ps) [] = (p = CHR ''*'' \<and> glob ps [])"
| "glob (p # ps) (c # cs) =
     (if p = CHR ''*'' then glob ps (c # cs) \<or> glob (p # ps) cs
      else if p = CHR ''?'' then glob ps cs
      else p = c \<and> glob ps cs)"

text \<open>
  \<^verbatim>\<open>SCAN\<close>: the cursor is a position in the key space; one call looks at the next
  \<open>count\<close> keys and returns those that match, with the next cursor, which is 0 at the end.
\<close>

definition redis_scan :: "nat \<Rightarrow> string \<Rightarrow> nat \<Rightarrow> store \<Rightarrow> exn + ((nat \<times> string list) \<times> store)" where
  "redis_scan cursor pattern count s =
     (let ks = map fst s;
          batch = take count (drop cursor ks);
          next = cursor + count
      in Inr ((if length ks \<le> next \<or> count = 0 then 0 else next, filter (glob pattern) batch), s))"

section \<open>State and effects\<close>

text \<open>
  The state the services act on: the counters of the cache service, the backend's key
  space, the console, and the environment's part. \<open>connection\<close> lists the successive
  answers of \<^verbatim>\<open>isClientConnected()\<close> (connected once the list is used up), \<open>faults\<close>
  says for each successive backend command whether it fails and with which message (none
  fails once the list is used up), \<open>clock\<close> lists the successive readings of
  \<^verbatim>\<open>new Date().toISOString()\<close>, and \<open>sleeps\<close> records the calls of \<^verbatim>\<open>delay\<close>.
\<close>

datatype log_entry = Log string | Warn string | WarnWith string exn | ErrorWith string exn

record world =
  stats :: CacheStats
  redis :: store
  connection :: "bool list"
  faults :: "string option list"
  clock :: "string list"
  sleeps :: "nat list"
  console :: "log_entry list"

text \<open>A computation returns a value or throws, and leaves a new state.\<close>

type_synonym 'a io = "world \<Rightarrow> (exn + 'a) \<times> world"

definition succeed :: "'a \<Rightarrow> 'a io" where
  "succeed x w = (Inr x, w)"

definition throw :: "exn \<Rightarrow> 'a io" where
  "throw e w = (Inl e, w)"

definition and_then :: "'a io \<Rightarrow> ('a \<Rightarrow> 'b io) \<Rightarrow> 'b io" where
  "and_then m f w = (case m w of (Inl e, w1) \<Rightarrow> (Inl e, w1) | (Inr x, w1) \<Rightarrow> f x w1)"

definition try_catch :: "'a io \<Rightarrow> (exn \<Rightarrow> 'a io) \<Rightarrow> 'a io" where
  "try_catch m h w = (case m w of (Inl e, w1) \<Rightarrow> h e w1 | (Inr x, w1) \<Rightarrow> (Inr x, w1))"

definition effect :: "(world \<Rightarrow> world) \<Rightarrow> unit io" where
  "effect f w = (Inr (), f w)"

definition write_console :: "log_entry \<Rightarrow> world \<Rightarrow> world" where
  "write_console l w = w\<lparr>console := console w @ [l]\<rparr>"

definition delay :: "nat \<Rightarrow> world \<Rightarrow> world" where
  "delay ms w = w\<lparr>sleeps := sleeps w @ [ms]\<rparr>"

definition now_ISO :: "string io" where
  "now_ISO w =
     (case clock w of
        [] \<Rightarrow> (Inr ''1970-01-01T00:00:00.000Z'', w)
      | t # ts \<Rightarrow> (Inr t, w\<lparr>clock := ts\<rparr>))"

definition isClientConnected :: "bool io" where
  "isClientConnected w =
     (case connection w of
        [] \<Rightarrow> (Inr True, w)
      | c # cs \<Rightarrow> (Inr c, w\<lparr>connection := cs\<rparr>))"

text \<open>One command sent to the backend through the client.\<close>

definition client :: "(store \<Rightarrow> exn + ('a \<times> store)) \<Rightarrow> 'a io" where
  "client cmd w =
     (case faults w of
        Some m # fs \<Rightarrow> (Inl (Error m), w\<lparr>faults := fs\<rparr>)
      | _ \<Rightarrow>
          (let w1 = w\<lparr>faults := tl (faults w)\<rparr> in
           case cmd (redis w1) of
             Inl e \<Rightarrow> (Inl e, w1)
           | Inr (x, s) \<Rightarrow> (Inr x, w1\<lparr>redis := s\<rparr>)))"

section \<open>The cache service (\<^verbatim>\<open>RedisCacheService\<close>)\<close>

text \<open>
  Each public method passes an operation (the arrow function of the source) to
  \<^verbatim>\<open>executeWithRetry\<close>; the operation of method \<open>m\<close> is \<open>m_operation\<close>.
\<close>

definition or_default :: "string option \<Rightarrow> string \<Rightarrow> string" where
  "or_default p d = (case p of None \<Rightarrow> d | Some s \<Rightarrow> if s = [] then d else s)"

definition int_toString :: "int \<Rightarrow> string" where
  "int_toString i = (if i < 0 then ''-'' @ nat_digits (nat \<bar>i\<bar>) else nat_digits (nat \<bar>i\<bar>))"

definition generateKey :: "string \<Rightarrow> string option \<Rightarrow> string" where
  "generateKey key pfx = or_default pfx CACHE_PREFIX @ '':'' @ key"

definition getProductTTL :: "CacheConfig \<Rightarrow> int option \<Rightarrow> int" where
  "getProductTTL cfg customTTL =
     (case customTTL of None \<Rightarrow> productTTL cfg | Some t \<Rightarrow> if t = 0 then productTTL cfg else t)"

definition getProductListTTL :: "CacheConfig \<Rightarrow> int option \<Rightarrow> int" where
  "getProductListTTL cfg customTTL =
     (case customTTL of None \<Rightarrow> productListTTL cfg | Some t \<Rightarrow> if t = 0 then productListTTL cfg else t)"

definition generateHashKey :: "number \<Rightarrow> string option \<Rightarrow> string" where
  "generateHashKey ident pfx = or_default pfx HASH_PREFIX @ '':'' @ toString ident"

definition updated_stats :: "bool \<Rightarrow> bool \<Rightarrow> bool \<Rightarrow> CacheStats \<Rightarrow> CacheStats" where
  "updated_stats hit error retry s =
     (let s1 = s\<lparr>operations := operations s + 1\<rparr>;
          s2 = (if hit then s1\<lparr>hits := hits s1 + 1\<rparr> else s1\<lparr>misses := misses s1 + 1\<rparr>);
          s3 = (if error then s2\<lparr>errors := errors s2 + 1\<rparr> else s2);
          s4 = (if retry then s3\<lparr>retries := retries s3 + 1\<rparr> else s3)
      in s4\<lparr>hitRate := (if operations s4 > 0
                         then (of_nat (hits s4) / of_nat (operations s4)) * 100 else 0)\<rparr>)"

definition updateStats :: "bool \<Rightarrow> bool \<Rightarrow> bool \<Rightarrow> world \<Rightarrow> world" where
  "updateStats hit error retry w = w\<lparr>stats := updated_stats hit error retry (stats w)\<rparr>"

definition failure_message :: "RetryConfig \<Rightarrow> string \<Rightarrow> exn \<Rightarrow> string" where
  "failure_message config operationName lastError =
     ''Operation '' @ operationName @ '' failed after '' @ nat_digits (maxRetries config)
       @ '' retries: '' @ message lastError"

definition attempt_message :: "RetryConfig \<Rightarrow> string \<Rightarrow> nat \<Rightarrow> exn \<Rightarrow> string" where
  "attempt_message config operationName attempt lastError =
     ''Cache operation '' @ operationName @ '' failed, attempt '' @ nat_digits (attempt + 1)
       @ ''/'' @ nat_digits (maxRetries config + 1) @ '': '' @ message lastError"

text \<open>
  The loop of \<^verbatim>\<open>executeWithRetry\<close>, from attempt number \<open>attempt\<close> on, with the current
  values of \<^verbatim>\<open>delayMs\<close> and \<^verbatim>\<open>lastError\<close>.
\<close>

function executeWithRetry_from ::
  "RetryConfig \<Rightarrow> 'a io \<Rightarrow> string \<Rightarrow> nat \<Rightarrow> nat \<Rightarrow> exn option \<Rightarrow> 'a io" where
  "executeWithRetry_from config operation operationName attempt delayMs lastError w =
     (if attempt \<le> maxRetries config then
        (let w0 = (if attempt > 0 then delay delayMs (updateStats False False True w) else w);
             delayMs1 = (if attempt > 0 then min (delayMs * backoffFactor config) (maxDelay config)
                         else delayMs)
         in case operation w0 of
              (Inr x, w1) \<Rightarrow> (Inr x, w1)
            | (Inl error, w1) \<Rightarrow>
                if attempt = maxRetries config then
                  (Inl (CacheOperationError (failure_message config operationName error)
                          operationName error),
                   updateStats False True False w1)
                else
                  executeWithRetry_from config operation operationName (attempt + 1) delayMs1
                    (Some error)
                    (write_console (Warn (attempt_message config operationName attempt error)) w1))
      else (case lastError of None \<Rightarrow> (Inl Undefined, w) | Some e \<Rightarrow> (Inl e, w)))"
  by pat_completeness auto
termination
  by (relation "measure (\<lambda>(config, operation, operationName, attempt, delayMs, lastError, w).
        Suc (maxRetries config) - attempt)") auto

declare executeWithRetry_from.simps [simp del]

definition executeWithRetry :: "'a io \<Rightarrow> string \<Rightarrow> 'a io" where
  "executeWithRetry operation operationName =
     executeWithRetry_from retryConfig operation operationName 0 (initialDelay retryConfig) None"

definition ensureConnection :: "unit io" where
  "ensureConnection =
     and_then isClientConnected (\<lambda>c.
       if \<not> c then throw (CacheConnectionError ''Redis client is not connected'')
       else succeed ())"

text \<open>
  \<^verbatim>\<open>scanKeys\<close>: the \<^verbatim>\<open>do ... while (cursor !== 0)\<close> loop, from \<open>cursor\<close> on, with
  the keys collected so far.
\<close>

function scanKeys_from :: "string \<Rightarrow> nat \<Rightarrow> string list \<Rightarrow> string list io" where
  "scanKeys_from pattern cursor keys w =
     (case client (redis_scan cursor pattern 100) w of
        (Inl e, w1) \<Rightarrow> (Inl e, w1)
      | (Inr (cursor1, ks), w1) \<Rightarrow>
          if cursor1 \<noteq> 0 then scanKeys_from pattern cursor1 (keys @ ks) w1
          else (Inr (keys @ ks), w1))"
  by pat_completeness auto
termination
proof (relation "measure (\<lambda>(pattern, cursor, keys, w). length (redis w) - cursor)", goal_cases)
  case 1
  show ?case by simp
next
  case (2 pattern cursor keys w x1 w1 x x2 ks)
  then have eq: "redis w1 = redis w" and nxt: "x2 = cursor + 100" and lt: "cursor + 100 < length (redis w)"
    by (auto simp: client_def redis_scan_def Let_def split: list.splits option.splits if_splits)
  from lt have "length (redis w) - (cursor + 100) < length (redis w) - cursor"
    by arith
  with eq nxt show ?case by simp
qed

declare scanKeys_from.simps [simp del]

definition scanKeys :: "string \<Rightarrow> string list io" where
  "scanKeys pattern = scanKeys_from pattern 0 []"

text \<open>
  A field of the hash read back from the backend; a field that is missing
  (\<^verbatim>\<open>undefined\<close>) and one that is the empty string are both falsy, and the code reads a
  field only after that test.
\<close>

definition hash_field :: "(string \<times> string) list \<Rightarrow> string \<Rightarrow> string" where
  "hash_field productHash f = (case map_of productHash f of None \<Rightarrow> [] | Some v \<Rightarrow> v)"

definition reconstructProductFromHash :: "(string \<times> string) list \<Rightarrow> exn + Product" where
  "reconstructProductFromHash productHash =
     (if hash_field productHash ''id'' = [] \<or> hash_field productHash ''name'' = []
         \<or> hash_field productHash ''price'' = [] \<or> hash_field productHash ''category'' = []
      then Inl (Error ''Invalid product hash data: missing required fields'')
      else
        (let ident = parseInt (hash_field productHash ''id'');
             pr = parseFloat (hash_field productHash ''price'')
         in if isNaN ident \<or> le_zero ident then Inl (Error ''Invalid product hash data: invalid ID'')
            else if isNaN pr \<or> lt_zero pr then Inl (Error ''Invalid product hash data: invalid price'')
            else Inr \<lparr>id' = ident, name = trim (hash_field productHash ''name''), price = pr,
                       category = trim (hash_field productHash ''category'')\<rparr>))"

definition lift_result :: "exn + 'a \<Rightarrow> 'a io" where
  "lift_result r = (case r of Inl e \<Rightarrow> throw e | Inr x \<Rightarrow> succeed x)"

definition use_hash :: "CacheOptions \<Rightarrow> bool" where
  "use_hash options = (case useHash options of None \<Rightarrow> True | Some b \<Rightarrow> b)"

definition product_hash :: "Product \<Rightarrow> string \<Rightarrow> (string \<times> string) list" where
  "product_hash product cachedAt =
     [(''id'', toString (id' product)), (''name'', name product),
      (''price'', toString (price product)), (''category'', category product),
      (''cachedAt'', cachedAt)]"

definition cacheProduct_operation :: "CacheConfig \<Rightarrow> Product \<Rightarrow> CacheOptions \<Rightarrow> unit io" where
  "cacheProduct_operation cfg product options =
     and_then ensureConnection (\<lambda>_.
        let customTTL = getProductTTL cfg (ttl options) in
        if use_hash options then
          (let hashKey = generateHashKey (id' product) (prefix options) in
           and_then now_ISO (\<lambda>cachedAt.
           and_then (client (redis_hSet hashKey (product_hash product cachedAt))) (\<lambda>_.
           and_then (client (redis_expire hashKey customTTL)) (\<lambda>_.
           effect (write_console (Log (''Cached product '' @ toString (id' product)
             @ '' as hash with TTL '' @ int_toString customTTL @ ''s'')))))))
        else
          (let key = generateKey (''single:'' @ toString (id' product)) (prefix options) in
           and_then (client (redis_setEx key customTTL (Json_product product))) (\<lambda>_.
           effect (write_console (Log (''Cached product '' @ toString (id' product)
             @ '' as string with TTL '' @ int_toString customTTL @ ''s''))))))"

definition cacheProduct :: "CacheConfig \<Rightarrow> Product \<Rightarrow> CacheOptions \<Rightarrow> unit io" where
  "cacheProduct cfg product options =
     executeWithRetry (cacheProduct_operation cfg product options) ''cacheProduct''"

definition getCachedProduct_operation :: "number \<Rightarrow> CacheOptions \<Rightarrow> Product option io" where
  "getCachedProduct_operation ident options =
     and_then ensureConnection (\<lambda>_.
        let miss = and_then (effect (updateStats False False False)) (\<lambda>_.
                   and_then (effect (write_console (Log (''Cache miss for product '' @ toString ident)))) (\<lambda>_.
                   succeed None))
        in
        if use_hash options then
          (let hashKey = generateHashKey ident (prefix options) in
           and_then (client (redis_hGetAll hashKey)) (\<lambda>productHash.
             if length productHash > 0 then
               and_then (effect (updateStats True False False)) (\<lambda>_.
               and_then (effect (write_console (Log (''Cache hit for product '' @ toString ident @ '' (hash)'')))) (\<lambda>_.
               and_then (lift_result (reconstructProductFromHash productHash)) (\<lambda>p.
               succeed (Some p))))
             else miss))
        else
          (let key = generateKey (''single:'' @ toString ident) (prefix options) in
           and_then (client (redis_get key)) (\<lambda>cached.
             case cached of
               None \<Rightarrow> miss
             | Some t \<Rightarrow>
                 if truthy t then
                   and_then (effect (updateStats True False False)) (\<lambda>_.
                   and_then (effect (write_console (Log (''Cache hit for product '' @ toString ident @ '' (string)'')))) (\<lambda>_.
                   and_then (lift_result (JSON_parse_Product t)) (\<lambda>p.
                   succeed (Some p))))
                 else miss)))"

definition getCachedProduct :: "number \<Rightarrow> CacheOptions \<Rightarrow> Product option io" where
  "getCachedProduct ident options =
     executeWithRetry (getCachedProduct_operation ident options) ''getCachedProduct''"

definition quoted :: "string \<Rightarrow> string" where
  "quoted s = [CHR 0x22] @ s @ [CHR 0x22]"

definition cacheProducts_operation :: "CacheConfig \<Rightarrow> Product list \<Rightarrow> string \<Rightarrow> CacheOptions \<Rightarrow> unit io" where
  "cacheProducts_operation cfg products cacheKey options =
     and_then ensureConnection (\<lambda>_.
        let key = generateKey (''list:'' @ cacheKey) (prefix options);
            customTTL = getProductListTTL cfg (ttl options)
        in and_then (client (redis_setEx key customTTL (Json_products products))) (\<lambda>_.
           effect (write_console (Log (''Cached '' @ nat_digits (length products)
             @ '' products with key '' @ quoted cacheKey @ '' TTL '' @ int_toString customTTL @ ''s'')))))"

definition cacheProducts :: "CacheConfig \<Rightarrow> Product list \<Rightarrow> string \<Rightarrow> CacheOptions \<Rightarrow> unit io" where
  "cacheProducts cfg products cacheKey options =
     executeWithRetry (cacheProducts_operation cfg products cacheKey options) ''cacheProducts''"

definition getCachedProducts_operation :: "string \<Rightarrow> CacheOptions \<Rightarrow> Product list option io" where
  "getCachedProducts_operation cacheKey options =
     and_then ensureConnection (\<lambda>_.
        let key = generateKey (''list:'' @ cacheKey) (prefix options);
            miss = and_then (effect (updateStats False False False)) (\<lambda>_.
                   and_then (effect (write_console (Log (''Cache miss for products list '' @ quoted cacheKey)))) (\<lambda>_.
                   succeed None))
        in and_then (client (redis_get key)) (\<lambda>cached.
             case cached of
               None \<Rightarrow> miss
             | Some t \<Rightarrow>
                 if truthy t then
                   and_then (effect (updateStats True False False)) (\<lambda>_.
                   and_then (effect (write_console (Log (''Cache hit for products list '' @ quoted cacheKey)))) (\<lambda>_.
                   and_then (lift_result (JSON_parse_Products t)) (\<lambda>ps.
                   succeed (Some ps))))
                 else miss))"

definition getCachedProducts :: "string \<Rightarrow> CacheOptions \<Rightarrow> Product list option io" where
  "getCachedProducts cacheKey options =
     executeWithRetry (getCachedProducts_operation cacheKey options) ''getCachedProducts''"

definition invalidateProduct_operation :: "number \<Rightarrow> CacheOptions \<Rightarrow> unit io" where
  "invalidateProduct_operation ident options =
     and_then ensureConnection (\<lambda>_.
        let hashKey = generateHashKey ident (prefix options);
            stringKey = generateKey (''single:'' @ toString ident) (prefix options);
            keysToDelete = [] @ [hashKey] @ [stringKey]
        in and_then (client (redis_del keysToDelete)) (\<lambda>deletedCount.
           effect (write_console (Log (''Invalidated cache for product '' @ toString ident
             @ '', deleted '' @ nat_digits deletedCount @ '' keys'')))))"

definition invalidateProduct :: "number \<Rightarrow> CacheOptions \<Rightarrow> unit io" where
  "invalidateProduct ident options =
     executeWithRetry (invalidateProduct_operation ident options) ''invalidateProduct''"

text \<open>The body of the loop over the patterns in \<^verbatim>\<open>invalidateProductLists\<close>.\<close>

fun delete_matching :: "string list \<Rightarrow> nat \<Rightarrow> nat io" where
  "delete_matching [] totalDeleted = succeed totalDeleted"
| "delete_matching (pattern # patterns) totalDeleted =
     and_then (scanKeys pattern) (\<lambda>keys.
       if length keys > 0 then
         and_then (client (redis_del keys)) (\<lambda>deleted.
           delete_matching patterns (totalDeleted + deleted))
       else delete_matching patterns totalDeleted)"

definition invalidateProductLists_operation :: "CacheOptions \<Rightarrow> unit io" where
  "invalidateProductLists_operation options =
     and_then ensureConnection (\<lambda>_.
        let patterns = [or_default (prefix options) CACHE_PREFIX @ '':list:*'',
                        or_default (prefix options) LIST_PREFIX @ '':*'']
        in and_then (delete_matching patterns 0) (\<lambda>totalDeleted.
           effect (write_console (Log (''Invalidated '' @ nat_digits totalDeleted
             @ '' product list cache entries'')))))"

definition invalidateProductLists :: "CacheOptions \<Rightarrow> unit io" where
  "invalidateProductLists options =
     executeWithRetry (invalidateProductLists_operation options) ''invalidateProductLists''"

definition hash_updates :: "PartialProduct \<Rightarrow> string \<Rightarrow> (string \<times> string) list" where
  "hash_updates partial cachedAt =
     (case name_opt partial of None \<Rightarrow> [] | Some n \<Rightarrow> [(''name'', n)])
     @ (case price_opt partial of None \<Rightarrow> [] | Some p \<Rightarrow> [(''price'', toString p)])
     @ (case category_opt partial of None \<Rightarrow> [] | Some c \<Rightarrow> [(''category'', c)])
     @ [(''cachedAt'', cachedAt)]"

definition join :: "string \<Rightarrow> string list \<Rightarrow> string" where
  "join sep xs = (case xs of [] \<Rightarrow> [] | x # r \<Rightarrow> x @ concat (map (\<lambda>y. sep @ y) r))"

definition updateProductHash_operation :: "number \<Rightarrow> PartialProduct \<Rightarrow> CacheOptions \<Rightarrow> unit io" where
  "updateProductHash_operation ident partial options =
     and_then ensureConnection (\<lambda>_.
        let hashKey = generateHashKey ident (prefix options) in
        and_then now_ISO (\<lambda>cachedAt.
          let updates = hash_updates partial cachedAt in
          if length updates > 0 then
            and_then (client (redis_hSet hashKey updates)) (\<lambda>_.
            effect (write_console (Log (''Updated hash fields for product '' @ toString ident
              @ '': '' @ join '', '' (map fst updates)))))
          else succeed ()))"

definition updateProductHash :: "number \<Rightarrow> PartialProduct \<Rightarrow> CacheOptions \<Rightarrow> unit io" where
  "updateProductHash ident partial options =
     executeWithRetry (updateProductHash_operation ident partial options) ''updateProductHash''"

definition getCacheStats :: "CacheStats io" where
  "getCacheStats w = (Inr (stats w), w)"

section \<open>The catalog service (\<^verbatim>\<open>ProductService\<close>)\<close>

text \<open>
  The persistence layer is an external collaborator, given by what it answers:
  \<open>repo_insert\<close> is \<^verbatim>\<open>create\<close> followed by \<^verbatim>\<open>save\<close> (the stored entity with its
  generated identifier), \<open>repo_findOne\<close> the lookup by identifier, \<open>repo_save\<close> the
  \<^verbatim>\<open>save\<close> of an existing entity, \<open>repo_delete\<close> the number of rows a delete affected,
  and \<open>repo_rows\<close> the rows that a category and a name filter select, in the order of
  the query (identifier, descending). Each may fail with an exception.
\<close>

record ProductCreateData =
  new_name :: string
  new_price :: number
  new_category :: string

record ProductUpdateData =
  upd_name :: "string option"
  upd_price :: "number option"
  upd_category :: "string option"

record Repository =
  repo_insert :: "ProductCreateData \<Rightarrow> exn + Product"
  repo_findOne :: "number \<Rightarrow> exn + Product option"
  repo_save :: "Product \<Rightarrow> exn + Product"
  repo_delete :: "number \<Rightarrow> exn + nat option"
  repo_rows :: "string option \<Rightarrow> string option \<Rightarrow> exn + Product list"

text \<open>The pagination settings (\<^verbatim>\<open>config/product.config.ts\<close>) and the service's configuration.\<close>

record Config =
  cacheConfig :: CacheConfig
  defaultPage :: int
  defaultLimit :: int
  maxLimit :: int

definition PRODUCTS_TTL :: "Config \<Rightarrow> int" where
  "PRODUCTS_TTL cfg = productTTL (cacheConfig cfg)"

definition PRODUCTS_KEY_PREFIX :: string where
  "PRODUCTS_KEY_PREFIX = ''products''"

record ProductQueryOptions =
  q_page :: "int option"
  q_limit :: "int option"
  q_category :: "string option"
  q_name :: "string option"

text \<open>
  The result of \<^verbatim>\<open>Math.ceil(a / b)\<close> on integers: the division by zero of JavaScript
  gives \<^verbatim>\<open>NaN\<close> or an infinity, not an exception.
\<close>

datatype pages = Pages int | PagesNaN | PagesInfinity bool

definition ceil_div :: "int \<Rightarrow> int \<Rightarrow> pages" where
  "ceil_div a b =
     (if b = 0 then (if a = 0 then PagesNaN else PagesInfinity (a < 0))
      else Pages \<lceil>(of_int a :: rat) / of_int b\<rceil>)"

record ProductListResponse =
  res_products :: "Product list"
  res_total :: int
  res_page :: int
  res_limit :: int
  res_totalPages :: pages

definition code :: "exn \<Rightarrow> string option" where
  "code e = (case e of QueryFailedError c m \<Rightarrow> c | _ \<Rightarrow> None)"

definition hash_mode :: CacheOptions where
  "hash_mode = \<lparr>ttl = None, prefix = None, useHash = Some True\<rparr>"

definition createProduct :: "Config \<Rightarrow> Repository \<Rightarrow> ProductCreateData \<Rightarrow> Product io" where
  "createProduct cfg repo d =
     try_catch
       (and_then (lift_result (repo_insert repo d)) (\<lambda>savedProduct.
        and_then
          (try_catch
             (and_then (cacheProduct (cacheConfig cfg) savedProduct hash_mode) (\<lambda>_.
              invalidateProductLists no_options))
             (\<lambda>cacheError. effect (write_console
                (WarnWith ''Cache operation failed during product creation:'' cacheError))))
          (\<lambda>_. succeed savedProduct)))
       (\<lambda>error.
          and_then (effect (write_console (ErrorWith ''Error creating product:'' error))) (\<lambda>_.
          if code error = Some ''23505''
          then throw (ConflictError (''Product with name '' @ [CHR 0x27] @ new_name d @ [CHR 0x27]
                 @ '' already exists''))
          else throw (DatabaseError ''Could not create product due to a database error''
                 (message error))))"

definition generateProductsCacheKey :: "int \<Rightarrow> int \<Rightarrow> string option \<Rightarrow> string option \<Rightarrow> string" where
  "generateProductsCacheKey pg lmt cat nm =
     PRODUCTS_KEY_PREFIX @ '':list:'' @ int_toString pg @ '':'' @ int_toString lmt @ '':''
       @ or_default cat [] @ '':'' @ or_default nm []"

definition truthy_filter :: "string option \<Rightarrow> string option" where
  "truthy_filter f = (case f of None \<Rightarrow> None | Some s \<Rightarrow> if s = [] then None else Some s)"

text \<open>
  \<^verbatim>\<open>buildProductQuery(category, name).skip(skip).take(actualLimit).getManyAndCount()\<close>:
  the page of the selected rows and the number of all selected rows.
\<close>

definition getManyAndCount ::
  "Repository \<Rightarrow> string option \<Rightarrow> string option \<Rightarrow> int \<Rightarrow> int \<Rightarrow> exn + (Product list \<times> int)" where
  "getManyAndCount repo cat nm skip actualLimit =
     (case repo_rows repo (truthy_filter cat) (truthy_filter nm) of
        Inl e \<Rightarrow> Inl e
      | Inr rows \<Rightarrow> Inr (take (nat actualLimit) (drop (nat skip) rows), int (length rows)))"

definition getProducts :: "Config \<Rightarrow> Repository \<Rightarrow> ProductQueryOptions \<Rightarrow> ProductListResponse io" where
  "getProducts cfg repo options =
     (let pg = (case q_page options of None \<Rightarrow> defaultPage cfg | Some p \<Rightarrow> p);
          lmt = (case q_limit options of None \<Rightarrow> defaultLimit cfg | Some l \<Rightarrow> l);
          actualLimit = min lmt (maxLimit cfg);
          skip = (pg - 1) * actualLimit;
          cacheKey = generateProductsCacheKey pg actualLimit (q_category options) (q_name options)
      in
      try_catch
        (and_then
           (try_catch
              (and_then (getCachedProducts cacheKey no_options) (\<lambda>cachedResult.
                 case cachedResult of
                   Some ps \<Rightarrow>
                     and_then (effect (write_console (Log ''Cache hit for product list''))) (\<lambda>_.
                     succeed (Some \<lparr>res_products = ps, res_total = int (length ps), res_page = pg,
                        res_limit = actualLimit,
                        res_totalPages = ceil_div (int (length ps)) actualLimit\<rparr>))
                 | None \<Rightarrow> succeed None))
              (\<lambda>cacheError.
                 and_then (effect (write_console
                   (WarnWith ''Cache read failed for product list:'' cacheError))) (\<lambda>_.
                 succeed None)))
           (\<lambda>answered.
              case answered of
                Some response \<Rightarrow> succeed response
              | None \<Rightarrow>
                  and_then (lift_result
                    (getManyAndCount repo (q_category options) (q_name options) skip actualLimit))
                  (\<lambda>(products, total).
                     let result = \<lparr>res_products = products, res_total = total, res_page = pg,
                           res_limit = actualLimit, res_totalPages = ceil_div total actualLimit\<rparr>
                     in
                     and_then
                       (try_catch
                          (and_then (cacheProducts (cacheConfig cfg) products cacheKey
                               \<lparr>ttl = Some (PRODUCTS_TTL cfg), prefix = None, useHash = None\<rparr>) (\<lambda>_.
                           effect (write_console (Log ''Cached product list''))))
                          (\<lambda>cacheError. effect (write_console
                             (WarnWith ''Cache write failed for product list:'' cacheError))))
                       (\<lambda>_. succeed result))))
        (\<lambda>error.
           and_then (effect (write_console (ErrorWith ''Error getting product list:'' error))) (\<lambda>_.
           throw (DatabaseError ''Could not retrieve product list due to a database error''
                  (message error)))))"

definition getProductById :: "Config \<Rightarrow> Repository \<Rightarrow> number \<Rightarrow> Product option io" where
  "getProductById cfg repo ident =
     try_catch
       (and_then
          (try_catch
             (and_then (getCachedProduct ident hash_mode) (\<lambda>cachedProduct.
                case cachedProduct of
                  Some p \<Rightarrow>
                    and_then (effect (write_console
                      (Log (''Cache hit for product ID: '' @ toString ident)))) (\<lambda>_.
                    succeed (Some p))
                | None \<Rightarrow> succeed None))
             (\<lambda>cacheError.
                and_then (effect (write_console
                  (WarnWith (''Cache read failed for product ID '' @ toString ident @ '':'')
                     cacheError))) (\<lambda>_.
                succeed None)))
          (\<lambda>answered.
             case answered of
               Some p \<Rightarrow> succeed (Some p)
             | None \<Rightarrow>
                 and_then (lift_result (repo_findOne repo ident)) (\<lambda>product.
                   case product of
                     None \<Rightarrow> succeed None
                   | Some p \<Rightarrow>
                       and_then
                         (try_catch
                            (and_then (cacheProduct (cacheConfig cfg) p
                                 \<lparr>ttl = Some (PRODUCTS_TTL cfg), prefix = None, useHash = Some True\<rparr>) (\<lambda>_.
                             effect (write_console (Log (''Cached product ID: '' @ toString ident)))))
                            (\<lambda>cacheError. effect (write_console
                               (WarnWith (''Cache write failed for product ID '' @ toString ident @ '':'')
                                  cacheError))))
                         (\<lambda>_. succeed (Some p)))))
       (\<lambda>error.
          and_then (effect (write_console (ErrorWith ''Error getting product by ID:'' error))) (\<lambda>_.
          throw (DatabaseError ''Could not retrieve product due to a database error''
                 (message error))))"

text \<open>\<^verbatim>\<open>Object.assign(product, data)\<close>: the fields that \<open>data\<close> defines replace the product's.\<close>

definition assign :: "Product \<Rightarrow> ProductUpdateData \<Rightarrow> Product" where
  "assign product d =
     product\<lparr>name := (case upd_name d of None \<Rightarrow> name product | Some n \<Rightarrow> n),
             price := (case upd_price d of None \<Rightarrow> price product | Some p \<Rightarrow> p),
             category := (case upd_category d of None \<Rightarrow> category product | Some c \<Rightarrow> c)\<rparr>"

definition as_partial :: "Product \<Rightarrow> PartialProduct" where
  "as_partial p = \<lparr>id_opt = Some (id' p), name_opt = Some (name p), price_opt = Some (price p),
                   category_opt = Some (category p)\<rparr>"

definition updateProduct ::
  "Config \<Rightarrow> Repository \<Rightarrow> number \<Rightarrow> ProductUpdateData \<Rightarrow> Product option io" where
  "updateProduct cfg repo ident d =
     try_catch
       (and_then (lift_result (repo_findOne repo ident)) (\<lambda>product.
          case product of
            None \<Rightarrow> succeed None
          | Some p \<Rightarrow>
              and_then (lift_result (repo_save repo (assign p d))) (\<lambda>updatedProduct.
              and_then
                (try_catch
                   (and_then (updateProductHash ident (as_partial updatedProduct) no_options) (\<lambda>_.
                    invalidateProductLists no_options))
                   (\<lambda>cacheError. effect (write_console
                      (WarnWith ''Cache operation failed during product update:'' cacheError))))
                (\<lambda>_. succeed (Some updatedProduct)))))
       (\<lambda>error.
          and_then (effect (write_console (ErrorWith ''Error updating product:'' error))) (\<lambda>_.
          if code error = Some ''23505''
          then throw (ConflictError (''Product with name '' @ [CHR 0x27]
                 @ (case upd_name d of None \<Rightarrow> ''undefined'' | Some n \<Rightarrow> n) @ [CHR 0x27]
                 @ '' already exists''))
          else throw (DatabaseError ''Could not update product due to a database error''
                 (message error))))"

definition deleteProduct :: "Config \<Rightarrow> Repository \<Rightarrow> number \<Rightarrow> bool io" where
  "deleteProduct cfg repo ident =
     try_catch
       (and_then (lift_result (repo_delete repo ident)) (\<lambda>affected.
          if (case affected of None \<Rightarrow> False | Some n \<Rightarrow> n > 0) then
            and_then
              (try_catch
                 (and_then (invalidateProduct ident no_options) (\<lambda>_.
                  invalidateProductLists no_options))
                 (\<lambda>cacheError. effect (write_console
                    (WarnWith ''Cache operation failed during product deletion:'' cacheError))))
              (\<lambda>_. succeed True)
          else succeed False))
       (\<lambda>error.
          and_then (effect (write_console (ErrorWith ''Error deleting product:'' error))) (\<lambda>_.
          throw (DatabaseError ''Could not delete product due to a database error''
                 (message error))))"

section \<open>Notions used to state the properties\<close>

text \<open>A computation keeps a property of the state, whatever it returns.\<close>

definition preserves :: "(world \<Rightarrow> bool) \<Rightarrow> 'a io \<Rightarrow> bool" where
  "preserves I m \<longleftrightarrow> (\<forall>w. I w \<longrightarrow> I (snd (m w)))"

text \<open>
  The environment's next answers: the connection is up at the next check, the next
  backend command does not fail, and the next reading of the clock.
\<close>

definition connected_now :: "world \<Rightarrow> bool" where
  "connected_now w = (case connection w of [] \<Rightarrow> True | c # cs \<Rightarrow> c)"

definition next_command_ok :: "world \<Rightarrow> bool" where
  "next_command_ok w = (case faults w of Some m # fs \<Rightarrow> False | _ \<Rightarrow> True)"

definition current_time :: "world \<Rightarrow> string" where
  "current_time w = (case clock w of [] \<Rightarrow> ''1970-01-01T00:00:00.000Z'' | t # ts \<Rightarrow> t)"

text \<open>Numbers below \<open>10^21\<close>, which \<^verbatim>\<open>toString\<close> prints without an exponent.\<close>

definition below_1e21 :: "number \<Rightarrow> bool" where
  "below_1e21 x = (case x of Finite neg ds n \<Rightarrow> n \<le> 21 | Zero \<Rightarrow> True | _ \<Rightarrow> False)"

text \<open>Concrete values for the examples: a fresh state, the default settings, two products.\<close>

definition empty_world :: world where
  "empty_world = \<lparr>stats = initial_stats, redis = [], connection = [], faults = [], clock = [],
     sleeps = [], console = []\<rparr>"

definition default_cacheConfig :: CacheConfig where
  "default_cacheConfig = \<lparr>productTTL = 60, productListTTL = 300, defaultTTL = 60\<rparr>"

definition widget :: Product where
  "widget = \<lparr>id' = Finite False ''7'' 1, name = ''Widget'', price = Finite False ''999'' 1,
     category = ''Tools''\<rparr>"

definition huge_id_product :: Product where
  "huge_id_product = \<lparr>id' = Finite False ''1'' 22, name = ''Widget'',
     price = Finite False ''999'' 1, category = ''Tools''\<rparr>"

text \<open>An operation that reads the clock and then fails, and a state with five clock readings.\<close>

definition failing_operation :: "unit io" where
  "failing_operation = and_then now_ISO (\<lambda>t. throw (Error t))"

definition five_readings :: world where
  "five_readings = empty_world\<lparr>clock := [''t1'', ''t2'', ''t3'', ''t4'', ''t5'']\<rparr>"

text \<open>
  A state whose hash for product 7 has an id that is not a number, and a state in which
  the first backend command fails.
\<close>

definition corrupt_id_world :: world where
  "corrupt_id_world = empty_world\<lparr>redis :=
     [(''products_hash:7'',
       (HashValue [(''id'', ''abc''), (''name'', ''Test''), (''price'', ''99.99''),
                   (''category'', ''Electronics'')], None))]\<rparr>"

definition one_fault_world :: world where
  "one_fault_world = empty_world\<lparr>faults := [Some ''Connection error'']\<rparr>"

text \<open>String mode, and a state holding product 7 in both representations.\<close>

definition string_mode :: CacheOptions where
  "string_mode = \<lparr>ttl = None, prefix = None, useHash = Some False\<rparr>"

definition both_cached_world :: world where
  "both_cached_world = empty_world\<lparr>redis :=
     [(''products_hash:7'', (HashValue (product_hash widget ''2024-01-01T00:00:00.000Z''), Some 60)),
      (''product:single:7'', (StringValue (Json_product widget), Some 60))]\<rparr>"

text \<open>The partial product that supplies only the name \<open>X\<close>.\<close>

definition name_X :: PartialProduct where
  "name_X = \<lparr>id_opt = None, name_opt = Some ''X'', price_opt = None, category_opt = None\<rparr>"





text \<open>
  The parts of a list query, named to state what \<open>getProducts\<close> answers: the page, the
  limit in force, the cache key, the page of rows that the persistence layer returns, the
  response built from the cache and the response built from the persistence layer.
\<close>

definition page_of :: "Config \<Rightarrow> ProductQueryOptions \<Rightarrow> int" where
  "page_of cfg options = (case q_page options of None \<Rightarrow> defaultPage cfg | Some p \<Rightarrow> p)"

definition actual_limit :: "Config \<Rightarrow> ProductQueryOptions \<Rightarrow> int" where
  "actual_limit cfg options =
     min (case q_limit options of None \<Rightarrow> defaultLimit cfg | Some l \<Rightarrow> l) (maxLimit cfg)"

definition list_cache_key :: "Config \<Rightarrow> ProductQueryOptions \<Rightarrow> string" where
  "list_cache_key cfg options =
     generateProductsCacheKey (page_of cfg options) (actual_limit cfg options)
       (q_category options) (q_name options)"

definition page_rows :: "Config \<Rightarrow> ProductQueryOptions \<Rightarrow> Product list \<Rightarrow> Product list" where
  "page_rows cfg options rows =
     take (nat (actual_limit cfg options))
       (drop (nat ((page_of cfg options - 1) * actual_limit cfg options)) rows)"

definition cached_response :: "Config \<Rightarrow> ProductQueryOptions \<Rightarrow> Product list \<Rightarrow> ProductListResponse" where
  "cached_response cfg options ps =
     \<lparr>res_products = ps, res_total = int (length ps), res_page = page_of cfg options,
      res_limit = actual_limit cfg options,
      res_totalPages = ceil_div (int (length ps)) (actual_limit cfg options)\<rparr>"

definition database_response :: "Config \<Rightarrow> ProductQueryOptions \<Rightarrow> Product list \<Rightarrow> ProductListResponse" where
  "database_response cfg options rows =
     \<lparr>res_products = page_rows cfg options rows, res_total = int (length rows),
      res_page = page_of cfg options, res_limit = actual_limit cfg options,
      res_totalPages = ceil_div (int (length rows)) (actual_limit cfg options)\<rparr>"

definition list_write_options :: "Config \<Rightarrow> CacheOptions" where
  "list_write_options cfg = \<lparr>ttl = Some (PRODUCTS_TTL cfg), prefix = None, useHash = None\<rparr>"

definition product_write_options :: "Config \<Rightarrow> CacheOptions" where
  "product_write_options cfg = \<lparr>ttl = Some (PRODUCTS_TTL cfg), prefix = None, useHash = Some True\<rparr>"

text \<open>
  A cache read gave no answer and left the state \<open>v\<close>: it reported a miss, or it failed
  and the failure was logged as a warning with the text \<open>msg\<close>.
\<close>

definition unanswered :: "'a option io \<Rightarrow> string \<Rightarrow> world \<Rightarrow> world \<Rightarrow> bool" where
  "unanswered m msg w v \<longleftrightarrow>
     m w = (Inr None, v)
     \<or> (\<exists>e v0. m w = (Inl e, v0) \<and> v = write_console (WarnWith msg e) v0)"

definition deleted_rows :: "nat option \<Rightarrow> bool" where
  "deleted_rows affected = (case affected of None \<Rightarrow> False | Some n \<Rightarrow> n > 0)"

text \<open>
  For the examples: the default configuration, a persistence layer that holds the one
  product \<open>widget\<close>, and a state in which the cache is unreachable for the next twelve
  connection checks.
\<close>

definition default_config :: Config where
  "default_config = \<lparr>cacheConfig = default_cacheConfig, defaultPage = 1, defaultLimit = 10,
     maxLimit = 100\<rparr>"

definition widget_data :: ProductCreateData where
  "widget_data = \<lparr>new_name = ''Widget'', new_price = Finite False ''999'' 1, new_category = ''Tools''\<rparr>"

definition widget_repository :: Repository where
  "widget_repository = \<lparr>repo_insert = (\<lambda>d. Inr widget), repo_findOne = (\<lambda>i. Inr (Some widget)),
     repo_save = (\<lambda>p. Inr p), repo_delete = (\<lambda>i. Inr (Some 1)),
     repo_rows = (\<lambda>c n. Inr [widget])\<rparr>"

definition no_query_options :: ProductQueryOptions where
  "no_query_options = \<lparr>q_page = None, q_limit = None, q_category = None, q_name = None\<rparr>"

definition no_update :: ProductUpdateData where
  "no_update = \<lparr>upd_name = None, upd_price = None, upd_category = None\<rparr>"

definition unreachable_world :: world where
  "unreachable_world = empty_world\<lparr>connection := replicate 12 False\<rparr>"

text \<open>
  The error with which a cache operation ends when the cache is unreachable at each of its
  four attempts, a persistence layer that holds nothing, and a state in which the first
  page of the unfiltered list is cached with the one product \<open>widget\<close>.
\<close>

definition unreachable_error :: "string \<Rightarrow> exn" where
  "unreachable_error operationName =
     CacheOperationError
       (failure_message retryConfig operationName (CacheConnectionError ''Redis client is not connected''))
       operationName (CacheConnectionError ''Redis client is not connected'')"

definition empty_repository :: Repository where
  "empty_repository = \<lparr>repo_insert = (\<lambda>d. Inr widget), repo_findOne = (\<lambda>i. Inr None),
     repo_save = (\<lambda>p. Inr p), repo_delete = (\<lambda>i. Inr (Some 0)), repo_rows = (\<lambda>c n. Inr [])\<rparr>"

definition list_cached_world :: world where
  "list_cached_world = empty_world\<lparr>redis :=
     [(generateKey (''list:'' @ list_cache_key default_config no_query_options) None,
       (StringValue (Json_products [widget]), Some 60))]\<rparr>"

text \<open>
  A persistence layer that holds three products, and the query for pages of two.
\<close>

definition gadget :: Product where
  "gadget = \<lparr>id' = Finite False ''8'' 1, name = ''Gadget'', price = Finite False ''5'' 1,
     category = ''Tools''\<rparr>"

definition gizmo :: Product where
  "gizmo = \<lparr>id' = Finite False ''9'' 1, name = ''Gizmo'', price = Finite False ''125'' 2,
     category = ''Tools''\<rparr>"

definition shelf_repository :: Repository where
  "shelf_repository = \<lparr>repo_insert = (\<lambda>d. Inr widget), repo_findOne = (\<lambda>i. Inr None),
     repo_save = (\<lambda>p. Inr p), repo_delete = (\<lambda>i. Inr (Some 0)),
     repo_rows = (\<lambda>c n. Inr [widget, gadget, gizmo])\<rparr>"

definition pages_of_two :: ProductQueryOptions where
  "pages_of_two = \<lparr>q_page = None, q_limit = Some 2, q_category = None, q_name = None\<rparr>"

section \<open>Conversions between numbers and strings\<close>

lemma isDigit_cases: "isDigit c \<Longrightarrow> c \<noteq> CHR ''.'' \<and> c \<noteq> CHR ''e'' \<and> c \<noteq> CHR ''E'' \<and> c \<noteq> CHR ''-'' \<and> c \<noteq> CHR ''+''
   \<and> c \<noteq> CHR ''I'' \<and> c \<noteq> CHR ''x'' \<and> c \<noteq> CHR ''X'' \<and> \<not> isWhiteSpace c"
  by (auto simp: isDigit_def isWhiteSpace_def)

lemma not_digit_chars [simp]:
  "\<not> isDigit CHR ''.''" "\<not> isDigit CHR ''e''" "\<not> isDigit CHR ''-''" "\<not> isDigit CHR ''+''"
  "isDigit CHR ''0''"
  by (simp_all add: isDigit_def)

lemma digit_char_is_digit: "d < 10 \<Longrightarrow> isDigit (digit_char d)"
proof -
  assume "d < 10"
  then have "d \<in> {0,1,2,3,4,5,6,7,8,9}" by auto
  then show ?thesis by (auto simp: digit_char_def isDigit_def)
qed

lemma digit_val_digit_char: "d < 10 \<Longrightarrow> digit_val (digit_char d) = d"
proof -
  assume "d < 10"
  then have "d \<in> {0,1,2,3,4,5,6,7,8,9}" by auto
  then show ?thesis by (auto simp: digit_char_def digit_val_def)
qed

lemma nat_digits_all_digits: "list_all isDigit (nat_digits n)"
proof (induction n rule: nat_digits.induct)
  case (1 n)
  then show ?case
    by (subst nat_digits.simps) (simp add: digit_char_is_digit)
qed

lemma nat_digits_nonempty: "nat_digits n \<noteq> []"
  by (subst nat_digits.simps) simp

lemma parse_nat_snoc: "parse_nat (ds @ [c]) = parse_nat ds * 10 + digit_val c"
  by (simp add: parse_nat_def)

lemma parse_nat_nat_digits: "parse_nat (nat_digits n) = n"
proof (induction n rule: nat_digits.induct)
  case (1 n)
  show ?case
  proof (cases "n < 10")
    case True
    then show ?thesis
      by (subst nat_digits.simps) (simp add: parse_nat_def digit_val_digit_char)
  next
    case False
    with 1 have "parse_nat (nat_digits (n div 10)) = n div 10" by simp
    with False show ?thesis
      by (subst nat_digits.simps) (simp add: parse_nat_snoc digit_val_digit_char)
  qed
qed

lemma takeWhile_all: "list_all P xs \<Longrightarrow> takeWhile P xs = xs"
  by (induction xs) auto

lemma dropWhile_all: "list_all P xs \<Longrightarrow> dropWhile P xs = []"
  by (induction xs) auto

lemma takeWhile_stop: "list_all P xs \<Longrightarrow> \<not> P y \<Longrightarrow> takeWhile P (xs @ y # ys) = xs"
  by (induction xs) auto

lemma dropWhile_stop: "list_all P xs \<Longrightarrow> \<not> P y \<Longrightarrow> dropWhile P (xs @ y # ys) = y # ys"
  by (induction xs) auto

lemma mk_number_padded:
  assumes "ds \<noteq> []" "hd ds \<noteq> CHR ''0''" "last ds \<noteq> CHR ''0''"
  shows "mk_number neg (replicate a CHR ''0'' @ ds @ replicate b CHR ''0'') m = Finite neg ds (m - int a)"
proof -
  obtain c cs where ds: "ds = c # cs" using assms(1) by (cases ds) auto
  with assms(2) have c: "c \<noteq> CHR ''0''" by simp
  have lead: "takeWhile (\<lambda>c. c = CHR ''0'') (replicate a CHR ''0'' @ ds @ replicate b CHR ''0'') = replicate a CHR ''0''"
    unfolding ds using c by (simp add: takeWhile_stop list_all_iff)
  have rest: "dropWhile (\<lambda>c. c = CHR ''0'') (replicate a CHR ''0'' @ ds @ replicate b CHR ''0'') = ds @ replicate b CHR ''0''"
    unfolding ds using c by (simp add: dropWhile_stop list_all_iff)
  obtain l ls where rds: "rev ds = l # ls" using assms(1) by (cases "rev ds") auto
  then have "last ds = l" by (metis last_rev list.sel(1) rev_rev_ident hd_rev)
  with assms(3) have l: "l \<noteq> CHR ''0''" by simp
  have tail: "dropWhile (\<lambda>c. c = CHR ''0'') (rev (ds @ replicate b CHR ''0'')) = rev ds"
    using l by (simp add: rds dropWhile_stop list_all_iff)
  show ?thesis
    unfolding mk_number_def Let_def lead rest tail using assms(1) by simp
qed



lemma strip_sign_digit: "isDigit c \<Longrightarrow> strip_sign (c # s) = (False, c # s)"
  by (auto simp: strip_sign_def dest: isDigit_cases)

lemma trimStart_digit: "isDigit c \<Longrightarrow> trimStart (c # s) = c # s"
  by (auto simp: trimStart_def dest: isDigit_cases)

lemma not_Infinity_digit: "isDigit c \<Longrightarrow> \<not> starts_with ''Infinity'' (c # s)"
  by (auto simp: starts_with_def dest: isDigit_cases)

lemma exponent_part_toString: "exponent_part (CHR ''e'' # exponent_toString e) = e"
proof -
  have ed: "takeWhile isDigit (nat_digits m) = nat_digits m" for m
    by (simp add: takeWhile_all nat_digits_all_digits)
  show ?thesis
    by (simp add: exponent_part_def exponent_toString_def strip_sign_def ed nat_digits_nonempty
        parse_nat_nat_digits Let_def)
qed

lemma exponent_part_Nil: "exponent_part [] = 0"
  by (simp add: exponent_part_def)

text \<open>The decimal literal that \<^verbatim>\<open>parseFloat\<close> reads, split into its parts.\<close>

lemma parseFloat_literal:
  assumes "ip \<noteq> []" "list_all isDigit ip"
  shows "parseFloat (ip @ CHR ''.'' # fp @ rest) = mk_number False (ip @ takeWhile isDigit (fp @ rest))
           (int (length ip) + exponent_part (dropWhile isDigit (fp @ rest)))"
proof -
  obtain c cs where ip: "ip = c # cs" using assms(1) by (cases ip) auto
  with assms(2) have c: "isDigit c" by simp
  have tw: "takeWhile isDigit (ip @ CHR ''.'' # fp @ rest) = ip"
    by (rule takeWhile_stop) (use assms in simp_all)
  have dw: "dropWhile isDigit (ip @ CHR ''.'' # fp @ rest) = CHR ''.'' # fp @ rest"
    by (rule dropWhile_stop) (use assms in simp_all)
  have pre: "strip_sign (trimStart (ip @ CHR ''.'' # fp @ rest)) = (False, ip @ CHR ''.'' # fp @ rest)"
    using c by (simp add: ip trimStart_digit strip_sign_digit)
  have ninf: "\<not> starts_with ''Infinity'' (ip @ CHR ''.'' # fp @ rest)"
    using c by (simp add: ip not_Infinity_digit)
  show ?thesis
    unfolding parseFloat_def pre using ninf assms(1) by (simp add: tw dw Let_def)
qed

lemma parseFloat_integer_literal:
  assumes "ip \<noteq> []" "list_all isDigit ip" "rest = [] \<or> (\<not> isDigit (hd rest) \<and> hd rest \<noteq> CHR ''.'')"
  shows "parseFloat (ip @ rest) = mk_number False ip (int (length ip) + exponent_part rest)"
proof -
  obtain c cs where ip: "ip = c # cs" using assms(1) by (cases ip) auto
  with assms(2) have c: "isDigit c" by simp
  have tw: "takeWhile isDigit (ip @ rest) = ip"
    using assms by (cases rest) (simp_all add: takeWhile_all takeWhile_stop)
  have dw: "dropWhile isDigit (ip @ rest) = rest"
    using assms by (cases rest) (simp_all add: dropWhile_all dropWhile_stop)
  have pre: "strip_sign (trimStart (ip @ rest)) = (False, ip @ rest)"
    using c by (simp add: ip trimStart_digit strip_sign_digit)
  have ninf: "\<not> starts_with ''Infinity'' (ip @ rest)"
    using c by (simp add: ip not_Infinity_digit)
  have split: "(case rest of [] \<Rightarrow> ([], [])
                 | c # r \<Rightarrow> if c = CHR ''.'' then (takeWhile isDigit r, dropWhile isDigit r)
                            else ([], rest)) = ([], rest)"
    using assms(3) by (cases rest) auto
  show ?thesis
    unfolding parseFloat_def pre using ninf assms(1)
    by (simp add: tw dw split Let_def)
qed

lemma finite_toString_cases:
  assumes "ds \<noteq> []"
  shows "int (length ds) \<le> n \<Longrightarrow> n \<le> 21 \<Longrightarrow>
           finite_toString ds n = ds @ replicate (nat (n - int (length ds))) CHR ''0''"
    and "n < int (length ds) \<Longrightarrow> 0 < n \<Longrightarrow> n \<le> 21 \<Longrightarrow>
           finite_toString ds n = take (nat n) ds @ CHR ''.'' # drop (nat n) ds"
    and "- 6 < n \<Longrightarrow> n \<le> 0 \<Longrightarrow>
           finite_toString ds n = CHR ''0'' # CHR ''.'' # replicate (nat (- n)) CHR ''0'' @ ds"
    and "21 < n \<or> n \<le> - 6 \<Longrightarrow> length ds = 1 \<Longrightarrow>
           finite_toString ds n = ds @ CHR ''e'' # exponent_toString (n - 1)"
    and "21 < n \<or> n \<le> - 6 \<Longrightarrow> length ds \<noteq> 1 \<Longrightarrow>
           finite_toString ds n = hd ds # CHR ''.'' # tl ds @ CHR ''e'' # exponent_toString (n - 1)"
proof -
  have "1 \<le> int (length ds)" using assms by (cases ds) auto
  then show "int (length ds) \<le> n \<Longrightarrow> n \<le> 21 \<Longrightarrow>
           finite_toString ds n = ds @ replicate (nat (n - int (length ds))) CHR ''0''"
    and "n < int (length ds) \<Longrightarrow> 0 < n \<Longrightarrow> n \<le> 21 \<Longrightarrow>
           finite_toString ds n = take (nat n) ds @ CHR ''.'' # drop (nat n) ds"
    and "- 6 < n \<Longrightarrow> n \<le> 0 \<Longrightarrow>
           finite_toString ds n = CHR ''0'' # CHR ''.'' # replicate (nat (- n)) CHR ''0'' @ ds"
    and "21 < n \<or> n \<le> - 6 \<Longrightarrow> length ds = 1 \<Longrightarrow>
           finite_toString ds n = ds @ CHR ''e'' # exponent_toString (n - 1)"
    and "21 < n \<or> n \<le> - 6 \<Longrightarrow> length ds \<noteq> 1 \<Longrightarrow>
           finite_toString ds n = hd ds # CHR ''.'' # tl ds @ CHR ''e'' # exponent_toString (n - 1)"
    by (auto simp: finite_toString_def Let_def)
qed

lemma parseFloat_finite_toString:
  assumes "ds \<noteq> []" "list_all isDigit ds" "hd ds \<noteq> CHR ''0''" "last ds \<noteq> CHR ''0''"
  shows "parseFloat (finite_toString ds n) = Finite False ds n"
proof -
  let ?k = "int (length ds)"
  note plain = mk_number_padded [OF assms(1,3,4), where a = 0 and b = 0, simplified]
  note fts = finite_toString_cases [OF assms(1), of n]
  have "1 \<le> ?k" using assms(1) by (cases ds) auto
  then consider (int) "?k \<le> n" "n \<le> 21"
    | (frac) "n < ?k" "0 < n" "n \<le> 21"
    | (small) "- 6 < n" "n \<le> 0"
    | (exp1) "21 < n \<or> n \<le> - 6" "length ds = 1"
    | (expk) "21 < n \<or> n \<le> - 6" "length ds \<noteq> 1"
    by linarith
  then show ?thesis
  proof cases
    case int
    have all: "list_all isDigit (ds @ replicate (nat (n - ?k)) CHR ''0'')"
      using assms(2) by (auto simp: list_all_iff)
    have "parseFloat (ds @ replicate (nat (n - ?k)) CHR ''0'') =
            mk_number False (ds @ replicate (nat (n - ?k)) CHR ''0'') (int (length (ds @ replicate (nat (n - ?k)) CHR ''0'')) + exponent_part [])"
      using parseFloat_integer_literal [of "ds @ replicate (nat (n - ?k)) CHR ''0''" "[]"] all assms(1)
      by simp
    also have "\<dots> = Finite False ds n"
      using mk_number_padded [OF assms(1,3,4), of False 0 "nat (n - ?k)"] int
      by (simp add: exponent_part_Nil)
    finally show ?thesis by (simp add: fts(1) [OF int])
  next
    case frac
    then have lt: "nat n < length ds" by linarith
    have ip: "take (nat n) ds \<noteq> []" "list_all isDigit (take (nat n) ds)"
      using frac assms(1,2) by (auto simp: list_all_iff dest: in_set_takeD)
    have fp: "list_all isDigit (drop (nat n) ds)"
      using assms(2) by (auto simp: list_all_iff dest: in_set_dropD)
    have "parseFloat (take (nat n) ds @ CHR ''.'' # drop (nat n) ds @ []) =
            mk_number False (take (nat n) ds @ takeWhile isDigit (drop (nat n) ds @ []))
              (int (length (take (nat n) ds)) + exponent_part (dropWhile isDigit (drop (nat n) ds @ [])))"
      by (rule parseFloat_literal [OF ip])
    also have "\<dots> = Finite False ds n"
      using lt frac by (simp add: takeWhile_all dropWhile_all fp exponent_part_Nil plain min_def)
    finally show ?thesis by (simp add: fts(2) [OF frac])
  next
    case small
    have fp: "list_all isDigit (replicate (nat (- n)) CHR ''0'' @ ds)"
      using assms(2) by (auto simp: list_all_iff)
    have "parseFloat (''0'' @ CHR ''.'' # (replicate (nat (- n)) CHR ''0'' @ ds) @ []) =
            mk_number False (''0'' @ takeWhile isDigit ((replicate (nat (- n)) CHR ''0'' @ ds) @ []))
              (int (length ''0'') + exponent_part (dropWhile isDigit ((replicate (nat (- n)) CHR ''0'' @ ds) @ [])))"
      by (rule parseFloat_literal) simp_all
    also have "\<dots> = mk_number False (replicate (Suc (nat (- n))) CHR ''0'' @ ds @ replicate 0 CHR ''0'') 1"
      using fp by (simp add: takeWhile_all dropWhile_all exponent_part_Nil del: list_all_append)
    also have "\<dots> = Finite False ds n"
      using small by (subst mk_number_padded [OF assms(1,3,4)]) simp
    finally show ?thesis by (simp add: fts(3) [OF small])
  next
    case exp1
    have "parseFloat (ds @ CHR ''e'' # exponent_toString (n - 1)) =
            mk_number False ds (int (length ds) + exponent_part (CHR ''e'' # exponent_toString (n - 1)))"
      by (rule parseFloat_integer_literal) (use assms in simp_all)
    also have "\<dots> = Finite False ds n"
      using exp1 by (simp add: exponent_part_toString plain)
    finally show ?thesis by (simp add: fts(4) [OF exp1])
  next
    case expk
    obtain c cs where ds: "ds = c # cs" using assms(1) by (cases ds) auto
    with assms(2) have c: "isDigit c" and cs: "list_all isDigit cs" by simp_all
    have "parseFloat ([c] @ CHR ''.'' # cs @ (CHR ''e'' # exponent_toString (n - 1))) =
            mk_number False ([c] @ takeWhile isDigit (cs @ (CHR ''e'' # exponent_toString (n - 1))))
              (int (length [c]) + exponent_part (dropWhile isDigit (cs @ (CHR ''e'' # exponent_toString (n - 1)))))"
      by (rule parseFloat_literal) (use c in simp_all)
    also have "\<dots> = mk_number False ds (1 + (n - 1))"
      using cs by (simp add: takeWhile_stop dropWhile_stop exponent_part_toString ds)
    also have "\<dots> = Finite False ds n"
      by (simp add: plain)
    finally show ?thesis unfolding fts(5) [OF expk] by (simp add: ds)
  qed
qed

lemma parseInt_integer_toString:
  assumes "ds \<noteq> []" "list_all isDigit ds" "hd ds \<noteq> CHR ''0''" "last ds \<noteq> CHR ''0''"
    and "int (length ds) \<le> n" "n \<le> 21"
  shows "parseInt (finite_toString ds n) = Finite False ds n"
proof -
  let ?s = "ds @ replicate (nat (n - int (length ds))) CHR ''0''"
  obtain c cs where ds: "ds = c # cs" using assms(1) by (cases ds) auto
  with assms(2,3) have c: "isDigit c" "c \<noteq> CHR ''0''" by simp_all
  have all: "list_all isDigit ?s"
    using assms(2) by (auto simp: list_all_iff)
  have pre: "strip_sign (trimStart ?s) = (False, ?s)"
    using c by (simp add: ds trimStart_digit strip_sign_digit)
  have nhex: "\<not> starts_with ''0x'' ?s" "\<not> starts_with ''0X'' ?s"
    using c by (simp_all add: ds starts_with_def)
  have tw: "takeWhile isDigit ?s = ?s"
    by (rule takeWhile_all [OF all])
  have "parseInt ?s = mk_number False ?s (int (length ?s))"
    unfolding parseInt_def pre using nhex assms(1,5) tw by (simp add: Let_def)
  also have "\<dots> = Finite False ds n"
    using mk_number_padded [OF assms(1,3,4), of False 0 "nat (n - int (length ds))"] assms(5)
    by simp
  finally show ?thesis by (simp add: finite_toString_cases(1) [OF assms(1,5,6)])
qed

section \<open>The retry wrapper\<close>

lemma retry_first_success:
  assumes "operation w = (Inr x, w1)"
  shows "executeWithRetry operation operationName w = (Inr x, w1)"
  using assms
  by (simp add: executeWithRetry_def executeWithRetry_from.simps [of _ _ _ 0])

text \<open>
  When the wrapper returns, its last attempt returned, in a state that any property kept by
  the failed attempts and by the wrapper's own bookkeeping still has.
\<close>

lemma retry_from_success:
  assumes "executeWithRetry_from config operation operationName attempt delayMs lastError w = (Inr x, w1)"
    and "I w"
    and "\<And>v e v1. I v \<Longrightarrow> operation v = (Inl e, v1) \<Longrightarrow> I v1"
    and "\<And>v h e r. I v \<Longrightarrow> I (updateStats h e r v)"
    and "\<And>v ms. I v \<Longrightarrow> I (delay ms v)"
    and "\<And>v l. I v \<Longrightarrow> I (write_console l v)"
  shows "\<exists>v. I v \<and> operation v = (Inr x, w1)"
  using assms
proof (induction config operation operationName attempt delayMs lastError w
       rule: executeWithRetry_from.induct)
  case (1 config operation operationName attempt delayMs lastError w)
  note step = executeWithRetry_from.simps [of config operation operationName attempt delayMs lastError w]
  note res = "1.prems"(1)[unfolded step]
  note fail_inv = "1.prems"(3) and stats_inv = "1.prems"(4) and delay_inv = "1.prems"(5)
    and console_inv = "1.prems"(6)
  show ?case
  proof (cases "attempt \<le> maxRetries config")
    case False
    with res show ?thesis
      by (simp split: option.splits)
  next
    case True
    define w0 where "w0 = (if attempt > 0 then delay delayMs (updateStats False False True w) else w)"
    have I0: "I w0" using "1.prems"(2) stats_inv delay_inv by (simp add: w0_def)
    obtain r v1 where op: "operation w0 = (r, v1)" by (cases "operation w0")
    show ?thesis
    proof (cases r)
      case (Inr y)
      with res True op have "y = x" "v1 = w1"
        by (simp_all add: w0_def Let_def)
      with op Inr I0 show ?thesis by auto
    next
      case (Inl e)
      show ?thesis
      proof (cases "attempt = maxRetries config")
        case True
        with res op Inl show ?thesis
          by (simp add: w0_def Let_def)
      next
        case neq: False
        have I1: "I (write_console (Warn (attempt_message config operationName attempt e)) v1)"
        proof (rule console_inv)
          from op Inl have "operation w0 = (Inl e, v1)" by simp
          with I0 show "I v1" by (rule fail_inv)
        qed
        have "executeWithRetry_from config operation operationName (attempt + 1)
                (if attempt > 0 then min (delayMs * backoffFactor config) (maxDelay config) else delayMs)
                (Some e) (write_console (Warn (attempt_message config operationName attempt e)) v1) = (Inr x, w1)"
          using res True op Inl neq
          by (simp add: w0_def Let_def)
        from "1.IH"[OF True w0_def refl op[symmetric] _ neq this I1 fail_inv stats_inv delay_inv console_inv] Inl
        show ?thesis by simp
      qed
    qed
  qed
qed

section \<open>Rules for computations\<close>

lemma preservesD: "preserves I m \<Longrightarrow> I w \<Longrightarrow> m w = (r, w1) \<Longrightarrow> I w1"
  by (auto simp: preserves_def)

lemma preserves_succeed [intro!]: "preserves I (succeed x)"
  by (simp add: preserves_def succeed_def)

lemma preserves_throw [intro!]: "preserves I (throw e)"
  by (simp add: preserves_def throw_def)

lemma preserves_lift_result [intro!]: "preserves I (lift_result r)"
  by (cases r) (simp_all add: lift_result_def preserves_succeed preserves_throw)

lemma preserves_and_then [intro!]:
  "preserves I m \<Longrightarrow> (\<And>x. preserves I (f x)) \<Longrightarrow> preserves I (and_then m f)"
  unfolding preserves_def and_then_def
  by (auto split: prod.splits sum.splits)

lemma preserves_try_catch [intro!]:
  "preserves I m \<Longrightarrow> (\<And>e. preserves I (h e)) \<Longrightarrow> preserves I (try_catch m h)"
  unfolding preserves_def try_catch_def
  by (auto split: prod.splits sum.splits)

lemma preserves_effect: "(\<And>w. I w \<Longrightarrow> I (f w)) \<Longrightarrow> preserves I (effect f)"
  by (simp add: preserves_def effect_def)

lemma preserves_if [intro!]:
  "(b \<Longrightarrow> preserves I m) \<Longrightarrow> (\<not> b \<Longrightarrow> preserves I n) \<Longrightarrow> preserves I (if b then m else n)"
  by simp

lemma preserves_case_option [intro!]:
  "(x = None \<Longrightarrow> preserves I m) \<Longrightarrow> (\<And>y. x = Some y \<Longrightarrow> preserves I (f y))
     \<Longrightarrow> preserves I (case x of None \<Rightarrow> m | Some y \<Rightarrow> f y)"
  by (cases x) simp_all

lemma and_then_Inr:
  "and_then m f w = (Inr x, w1) \<longleftrightarrow> (\<exists>y v. m w = (Inr y, v) \<and> f y v = (Inr x, w1))"
  by (auto simp: and_then_def split: prod.splits sum.splits)

lemma succeed_Inr: "succeed y w = (Inr x, w1) \<longleftrightarrow> x = y \<and> w1 = w"
  by (auto simp: succeed_def)

lemma throw_Inr: "throw e w = (Inr x, w1) \<longleftrightarrow> False"
  by (simp add: throw_def)

lemma effect_Inr: "effect f w = (Inr x, w1) \<longleftrightarrow> w1 = f w"
  by (auto simp: effect_def)

lemma lift_result_Inr: "lift_result r w = (Inr x, w1) \<longleftrightarrow> r = Inr x \<and> w1 = w"
  by (cases r) (auto simp: lift_result_def succeed_def throw_def)

lemma ensureConnection_Inr:
  "ensureConnection w = (Inr x, w1) \<longleftrightarrow> connected_now w \<and> w1 = w\<lparr>connection := tl (connection w)\<rparr>"
  by (auto simp: ensureConnection_def isClientConnected_def and_then_def succeed_def throw_def
      connected_now_def split: list.splits)

lemma now_ISO_Inr:
  "now_ISO w = (Inr t, w1) \<longleftrightarrow> t = current_time w \<and> w1 = w\<lparr>clock := tl (clock w)\<rparr>"
  by (auto simp: now_ISO_def current_time_def split: list.splits)

lemma client_Inr:
  "client cmd w = (Inr x, w1) \<longleftrightarrow>
     next_command_ok w \<and> (\<exists>s. cmd (redis w) = Inr (x, s) \<and> w1 = w\<lparr>faults := tl (faults w), redis := s\<rparr>)"
  by (auto simp: client_def next_command_ok_def Let_def split: list.splits option.splits sum.splits)

lemmas io_Inr = and_then_Inr succeed_Inr throw_Inr effect_Inr lift_result_Inr ensureConnection_Inr
  now_ISO_Inr client_Inr

lemma preserves_ensureConnection:
  "(\<And>w c. I w \<Longrightarrow> I (w\<lparr>connection := c\<rparr>)) \<Longrightarrow> preserves I ensureConnection"
  by (auto simp: preserves_def ensureConnection_def isClientConnected_def and_then_def succeed_def
      throw_def split: list.splits)

lemma preserves_now_ISO:
  "(\<And>w c. I w \<Longrightarrow> I (w\<lparr>clock := c\<rparr>)) \<Longrightarrow> preserves I now_ISO"
  by (auto simp: preserves_def now_ISO_def split: list.splits)

lemma preserves_client:
  assumes "\<And>w f. I w \<Longrightarrow> I (w\<lparr>faults := f\<rparr>)"
    and "\<And>w x s. I w \<Longrightarrow> cmd (redis w) = Inr (x, s) \<Longrightarrow> I (w\<lparr>redis := s\<rparr>)"
  shows "preserves I (client cmd)"
  unfolding preserves_def
proof (intro allI impI)
  fix w assume I: "I w"
  show "I (snd (client cmd w))"
  proof (cases "next_command_ok w")
    case False
    then show ?thesis using assms(1) [OF I]
      by (auto simp: client_def next_command_ok_def split: list.splits option.splits)
  next
    case True
    let ?w1 = "w\<lparr>faults := tl (faults w)\<rparr>"
    have I1: "I ?w1" using assms(1) [OF I] .
    have c: "client cmd w = (case cmd (redis ?w1) of Inl e \<Rightarrow> (Inl e, ?w1)
               | Inr (x, s) \<Rightarrow> (Inr x, ?w1\<lparr>redis := s\<rparr>))"
      using True by (auto simp: client_def next_command_ok_def Let_def
          split: list.splits option.splits sum.splits prod.splits)
    show ?thesis
    proof (cases "cmd (redis ?w1)")
      case (Inl e)
      with c I1 show ?thesis by simp
    next
      case (Inr xs)
      obtain x s where "xs = (x, s)" by (cases xs)
      with c Inr assms(2) [OF I1, of x s] show ?thesis by simp
    qed
  qed
qed

lemma map_of_set_fields: "map_of (set_fields fvs h) = map_of h ++ map_of (rev fvs)"
  unfolding set_fields_def
proof (induction fvs arbitrary: h)
  case Nil
  show ?case by simp
next
  case (Cons fv fvs)
  obtain f v where fv: "fv = (f, v)" by (cases fv)
  have "map_of (fold (\<lambda>(f, v). AList.update f v) fvs (AList.update f v h))
          = map_of (AList.update f v h) ++ map_of (rev fvs)"
    by (rule Cons.IH)
  then show ?case
    by (simp add: fv update_conv' map_add_upd_left)
qed

lemma hash_field_set_fields:
  "hash_field (set_fields fvs h) f =
     (case map_of (rev fvs) f of None \<Rightarrow> hash_field h f | Some v \<Rightarrow> v)"
  by (simp add: hash_field_def map_of_set_fields map_add_def split: option.splits)

lemma redis_hSet_Inr:
  assumes "redis_hSet key fvs s = Inr (n, s1)"
  shows "\<exists>h t. map_of s1 = (map_of s)(key \<mapsto> (HashValue (set_fields fvs h), t))
           \<and> (map_of s key = None \<and> h = [] \<and> t = None \<or> map_of s key = Some (HashValue h, t))"
  using assms
  by (auto simp: redis_hSet_def update_conv' split: if_splits option.splits redis_value.splits)

lemma redis_expire_Inr:
  assumes "redis_expire key seconds s = Inr (b, s1)"
  shows "map_of s1 = (case map_of s key of
            None \<Rightarrow> map_of s
          | Some (v, t) \<Rightarrow> if seconds \<le> 0 then (map_of s)(key := None)
                          else (map_of s)(key \<mapsto> (v, Some seconds)))"
  using assms
  by (auto simp: redis_expire_def update_conv' delete_conv' split: if_splits option.splits)

lemma cacheProduct_operation_hash_post:
  assumes "cacheProduct_operation cfg P opts v = (Inr x, w1)" "use_hash opts"
    "0 < getProductTTL cfg (ttl opts)"
  shows "\<exists>h t. map_of (redis w1) (generateHashKey (id' P) (prefix opts)) = Some (HashValue h, t)
           \<and> hash_field h ''id'' = toString (id' P) \<and> hash_field h ''name'' = name P
           \<and> hash_field h ''price'' = toString (price P) \<and> hash_field h ''category'' = category P"
proof -
  let ?key = "generateHashKey (id' P) (prefix opts)"
  from assms(1,2) obtain t n s b s1
    where set: "redis_hSet ?key (product_hash P t) (redis v) = Inr (n, s)"
      and expire: "redis_expire ?key (getProductTTL cfg (ttl opts)) s = Inr (b, s1)"
      and w1: "redis w1 = s1"
    by (auto simp: cacheProduct_operation_def io_Inr Let_def write_console_def)
  from redis_hSet_Inr [OF set] obtain h0 t0
    where s: "map_of s ?key = Some (HashValue (set_fields (product_hash P t) h0), t0)"
    by auto
  from redis_expire_Inr [OF expire] s assms(3)
  have "map_of s1 ?key = Some (HashValue (set_fields (product_hash P t) h0),
          Some (getProductTTL cfg (ttl opts)))"
    by simp
  then show ?thesis
    unfolding w1 by (simp add: hash_field_set_fields product_hash_def)
qed

section \<open>The attempts of the retry wrapper\<close>

lemma retry_step_failed:
  assumes "operation (if attempt > 0 then delay delayMs (updateStats False False True w) else w) = (Inl e, v1)"
    and "attempt < maxRetries config"
  shows "executeWithRetry_from config operation operationName attempt delayMs lastError w =
           executeWithRetry_from config operation operationName (attempt + 1)
             (if attempt > 0 then min (delayMs * backoffFactor config) (maxDelay config) else delayMs)
             (Some e) (write_console (Warn (attempt_message config operationName attempt e)) v1)"
  using assms
  by (subst executeWithRetry_from.simps) (simp add: Let_def)

lemma retry_step_last:
  assumes "operation (if attempt > 0 then delay delayMs (updateStats False False True w) else w) = (Inl e, v1)"
    and "attempt = maxRetries config"
  shows "executeWithRetry_from config operation operationName attempt delayMs lastError w =
           (Inl (CacheOperationError (failure_message config operationName e) operationName e),
            updateStats False True False v1)"
  using assms
  by (subst executeWithRetry_from.simps) (simp add: Let_def)

lemma retry_step_returned:
  assumes "operation (if attempt > 0 then delay delayMs (updateStats False False True w) else w) = (Inr x, v1)"
    and "attempt \<le> maxRetries config"
  shows "executeWithRetry_from config operation operationName attempt delayMs lastError w = (Inr x, v1)"
  using assms
  by (subst executeWithRetry_from.simps) (simp add: Let_def)



lemma retry_from_failure:
  assumes "I w"
    and "\<And>v. I v \<Longrightarrow> \<exists>e v1. operation v = (Inl e, v1) \<and> Q e \<and> I v1"
    and "\<And>v h e r. I v \<Longrightarrow> I (updateStats h e r v)"
    and "\<And>v ms. I v \<Longrightarrow> I (delay ms v)"
    and "\<And>v l. I v \<Longrightarrow> I (write_console l v)"
    and "attempt \<le> maxRetries config"
  shows "\<exists>e v. Q e \<and> executeWithRetry_from config operation operationName attempt delayMs lastError w =
           (Inl (CacheOperationError (failure_message config operationName e) operationName e), v)"
  using assms
proof (induction config operation operationName attempt delayMs lastError w
       rule: executeWithRetry_from.induct)
  case (1 config operation operationName attempt delayMs lastError w)
  define w0 where "w0 = (if attempt > 0 then delay delayMs (updateStats False False True w) else w)"
  have I0: "I w0" using "1.prems"(1,3,4) by (simp add: w0_def)
  from "1.prems"(2) [OF I0] obtain e v1 where op: "operation w0 = (Inl e, v1)" and Q: "Q e"
    and I1: "I v1" by blast
  show ?case
  proof (cases "attempt = maxRetries config")
    case True
    from retry_step_last [where operation = operation and attempt = attempt and delayMs = delayMs and w = w, OF op [unfolded w0_def] True] Q show ?thesis by blast
  next
    case neq: False
    with "1.prems"(6) have lt: "attempt < maxRetries config" by simp
    have I2: "I (write_console (Warn (attempt_message config operationName attempt e)) v1)"
      using I1 by (rule "1.prems"(5))
    from lt have le: "attempt + 1 \<le> maxRetries config" by simp
    from "1.IH" [OF "1.prems"(6) w0_def refl op [symmetric] refl neq I2 "1.prems"(2-5) le]
      retry_step_failed [where operation = operation and attempt = attempt and delayMs = delayMs and w = w, OF op [unfolded w0_def] lt]
    show ?thesis by simp
  qed
qed

lemma retry_from_error_kind:
  assumes "executeWithRetry_from config operation operationName attempt delayMs lastError w = (Inl e, w1)"
    and "attempt \<le> maxRetries config"
  shows "\<exists>m e0. e = CacheOperationError m operationName e0"
  using assms
proof (induction config operation operationName attempt delayMs lastError w
       rule: executeWithRetry_from.induct)
  case (1 config operation operationName attempt delayMs lastError w)
  define w0 where "w0 = (if attempt > 0 then delay delayMs (updateStats False False True w) else w)"
  obtain r v1 where op: "operation w0 = (r, v1)" by (cases "operation w0")
  show ?case
  proof (cases r)
    case (Inr y)
    with op have "operation w0 = (Inr y, v1)" by simp
    from retry_step_returned [where operation = operation and attempt = attempt and delayMs = delayMs and w = w, OF this [unfolded w0_def] "1.prems"(2)] "1.prems"(1)
    show ?thesis by simp
  next
    case (Inl e')
    with op have op': "operation w0 = (Inl e', v1)" by simp
    show ?thesis
    proof (cases "attempt = maxRetries config")
      case True
      from retry_step_last [where operation = operation and attempt = attempt and delayMs = delayMs and w = w, OF op' [unfolded w0_def] True] "1.prems"(1)
      show ?thesis by auto
    next
      case neq: False
      with "1.prems"(2) have lt: "attempt < maxRetries config" by simp
      then have le: "attempt + 1 \<le> maxRetries config" by simp
      from retry_step_failed [where operation = operation and attempt = attempt and delayMs = delayMs and w = w, OF op' [unfolded w0_def] lt] "1.prems"(1)
      have "executeWithRetry_from config operation operationName (attempt + 1)
                (if attempt > 0 then min (delayMs * backoffFactor config) (maxDelay config) else delayMs)
                (Some e') (write_console (Warn (attempt_message config operationName attempt e')) v1) = (Inl e, w1)"
        by simp
      from "1.IH" [OF "1.prems"(2) w0_def refl op [symmetric] _ neq this le] Inl
      show ?thesis by simp
    qed
  qed
qed

lemma retry_error_kind:
  assumes "executeWithRetry operation operationName w = (Inl e, w1)"
  shows "\<exists>m e0. e = CacheOperationError m operationName e0"
  using assms unfolding executeWithRetry_def
  by (rule retry_from_error_kind) (rule le0)

lemma retry_failure:
  assumes "I w"
    and "\<And>v. I v \<Longrightarrow> \<exists>e v1. operation v = (Inl e, v1) \<and> Q e \<and> I v1"
    and "\<And>v h e r. I v \<Longrightarrow> I (updateStats h e r v)"
    and "\<And>v ms. I v \<Longrightarrow> I (delay ms v)"
    and "\<And>v l. I v \<Longrightarrow> I (write_console l v)"
  shows "\<exists>e v. Q e \<and> executeWithRetry operation operationName w =
           (Inl (CacheOperationError (failure_message retryConfig operationName e) operationName e), v)"
  unfolding executeWithRetry_def
  by (rule retry_from_failure [where I = I and Q = Q]) (fact assms le0)+

section \<open>Writing a product and reading it back\<close>

lemma finite_toString_nonempty: "ds \<noteq> [] \<Longrightarrow> finite_toString ds n \<noteq> []"
  by (auto simp: finite_toString_def Let_def)

lemma parseInt_toString:
  assumes "is_number x" "is_integer x" "\<not> le_zero x" "below_1e21 x"
  shows "parseInt (toString x) = x" "toString x \<noteq> []"
  using assms
  by (cases x; simp add: is_number_def is_integer_def le_zero_def below_1e21_def toString_def
      parseInt_integer_toString finite_toString_nonempty)+

lemma parseFloat_Zero: "parseFloat ''0'' = Zero"
  using parseFloat_integer_literal [of "''0''" "[]"]
  by (simp add: mk_number_def exponent_part_Nil)

lemma parseFloat_toString:
  assumes "is_number x" "is_finite x" "\<not> lt_zero x"
  shows "parseFloat (toString x) = x" "toString x \<noteq> []"
  using assms
  by (cases x; simp add: is_number_def is_finite_def lt_zero_def toString_def parseFloat_Zero
      parseFloat_finite_toString finite_toString_nonempty)+

lemma reconstruct_roundtrip:
  assumes "hash_field h ''id'' = toString (id' P)" "hash_field h ''name'' = name P"
    "hash_field h ''price'' = toString (price P)" "hash_field h ''category'' = category P"
    and "is_number (id' P)" "is_integer (id' P)" "\<not> le_zero (id' P)" "below_1e21 (id' P)"
    and "is_number (price P)" "is_finite (price P)" "\<not> lt_zero (price P)"
    and "name P \<noteq> []" "trim (name P) = name P" "category P \<noteq> []" "trim (category P) = category P"
  shows "reconstructProductFromHash h = Inr P"
proof -
  note i = parseInt_toString [OF assms(5-8)] and p = parseFloat_toString [OF assms(9-11)]
  have "id' P \<noteq> NaN" "price P \<noteq> NaN"
    using assms(6,10) by (auto simp: is_integer_def is_finite_def)
  then show ?thesis
    using assms(7,11-15)
    by (simp add: reconstructProductFromHash_def assms(1-4) i p Let_def isNaN_def)
qed

lemma state_kept [simp]:
  "redis (updateStats h e r v) = redis v" "redis (delay ms v) = redis v"
  "redis (write_console l v) = redis v"
  "stats (delay ms v) = stats v" "stats (write_console l v) = stats v"
  "stats (updateStats h e r v) = updated_stats h e r (stats v)"
  "console (updateStats h e r v) = console v" "console (delay ms v) = console v"
  "console (write_console l v) = console v @ [l]"
  "sleeps (updateStats h e r v) = sleeps v" "sleeps (write_console l v) = sleeps v"
  "sleeps (delay ms v) = sleeps v @ [ms]"
  "faults (updateStats h e r v) = faults v" "faults (delay ms v) = faults v"
  "faults (write_console l v) = faults v"
  "connection (updateStats h e r v) = connection v" "connection (delay ms v) = connection v"
  "connection (write_console l v) = connection v"
  "clock (updateStats h e r v) = clock v" "clock (delay ms v) = clock v"
  "clock (write_console l v) = clock v"
  by (simp_all add: updateStats_def delay_def write_console_def)

lemma read_only_commands:
  "redis_hGetAll key s = Inr (x, s1) \<Longrightarrow> s1 = s"
  "redis_get key s = Inr (y, s1) \<Longrightarrow> s1 = s"
  "redis_scan cursor pattern count s = Inr (z, s1) \<Longrightarrow> s1 = s"
  by (auto simp: redis_hGetAll_def redis_get_def redis_scan_def Let_def
      split: option.splits redis_value.splits prod.splits)

lemma getCachedProduct_operation_redis:
  "preserves (\<lambda>v. redis v = s0) (getCachedProduct_operation i opts)"
  unfolding getCachedProduct_operation_def Let_def
  by (intro preserves_and_then preserves_if preserves_case_option preserves_succeed preserves_lift_result
       preserves_ensureConnection preserves_client preserves_effect)
     (auto dest: read_only_commands)

lemma getCachedProducts_operation_redis:
  "preserves (\<lambda>v. redis v = s0) (getCachedProducts_operation k opts)"
  unfolding getCachedProducts_operation_def Let_def
  by (intro preserves_and_then preserves_if preserves_case_option preserves_succeed preserves_lift_result
       preserves_ensureConnection preserves_client preserves_effect)
     (auto dest: read_only_commands)

lemma getCachedProduct_operation_hash_result:
  assumes "getCachedProduct_operation i opts v = (Inr r, w2)" "use_hash opts"
    "map_of (redis v) (generateHashKey i (prefix opts)) = Some (HashValue h, t)" "h \<noteq> []"
  shows "\<exists>p. reconstructProductFromHash h = Inr p \<and> r = Some p"
  using assms
  by (auto simp: getCachedProduct_operation_def io_Inr Let_def redis_hGetAll_def)

lemma getCachedProduct_operation_hash_hit:
  assumes "connected_now v" "next_command_ok v" "use_hash opts"
    "map_of (redis v) (generateHashKey i (prefix opts)) = Some (HashValue h, t)" "h \<noteq> []"
    "reconstructProductFromHash h = Inr p"
  shows "\<exists>w2. getCachedProduct_operation i opts v = (Inr (Some p), w2)"
  using assms
  by (simp add: getCachedProduct_operation_def io_Inr Let_def redis_hGetAll_def next_command_ok_def)

lemma retry_success:
  assumes "executeWithRetry operation operationName w = (Inr x, w1)"
    and "I w" "\<And>v e v1. I v \<Longrightarrow> operation v = (Inl e, v1) \<Longrightarrow> I v1"
    and "\<And>v h e r. I v \<Longrightarrow> I (updateStats h e r v)"
    and "\<And>v ms. I v \<Longrightarrow> I (delay ms v)"
    and "\<And>v l. I v \<Longrightarrow> I (write_console l v)"
  shows "\<exists>v. I v \<and> operation v = (Inr x, w1)"
  using assms(1) unfolding executeWithRetry_def
  by (rule retry_from_success) (fact assms)+

lemma retry_success_some_attempt:
  assumes "executeWithRetry operation operationName w = (Inr x, w1)"
  shows "\<exists>v. operation v = (Inr x, w1)"
  using retry_success [OF assms, of "\<lambda>v. True"] by simp

lemma retry_success_same_redis:
  assumes "executeWithRetry operation operationName w = (Inr x, w1)"
    and "\<And>s0. preserves (\<lambda>v. redis v = s0) operation"
  shows "\<exists>v. redis v = redis w \<and> operation v = (Inr x, w1)"
  using assms(1)
proof (rule retry_success [where I = "\<lambda>v. redis v = redis w"], goal_cases)
  case (2 v e v1)
  then show ?case using preservesD [OF assms(2) [of "redis w"]] by blast
qed simp_all

lemma cacheProduct_success_post:
  assumes "cacheProduct cfg P opts w = (Inr u, w1)" "use_hash opts" "0 < getProductTTL cfg (ttl opts)"
  shows "\<exists>h t. map_of (redis w1) (generateHashKey (id' P) (prefix opts)) = Some (HashValue h, t)
           \<and> hash_field h ''id'' = toString (id' P) \<and> hash_field h ''name'' = name P
           \<and> hash_field h ''price'' = toString (price P) \<and> hash_field h ''category'' = category P"
proof -
  from assms(1) obtain v where "cacheProduct_operation cfg P opts v = (Inr u, w1)"
    unfolding cacheProduct_def by (blast dest: retry_success_some_attempt)
  then show ?thesis using assms(2,3) by (rule cacheProduct_operation_hash_post)
qed

text \<open>
  Claim C1, as amended. Let \<open>P\<close> be a product whose id is a positive integer below
  \<open>10^21\<close>, whose price is finite and not negative, and whose name and category are
  non-empty and have no white space at either end. After \<open>cacheProduct\<close> has stored
  \<open>P\<close> in hash mode with a positive time to live (so that the backend does not expire the
  entry at once), \<open>getCachedProduct\<close> for \<open>P\<close>'s id, in hash mode with the same prefix
  and on the state that \<open>cacheProduct\<close> left, returns \<open>P\<close>: it does so whenever the
  connection is up and the backend command does not fail, and whenever it returns at all
  (also after retries) what it returns is \<open>P\<close>.
\<close>

theorem C1_hash_roundtrip:
  assumes "is_number (id' P)" "is_integer (id' P)" "\<not> le_zero (id' P)" "below_1e21 (id' P)"
    and "is_number (price P)" "is_finite (price P)" "\<not> lt_zero (price P)"
    and "name P \<noteq> []" "trim (name P) = name P" "category P \<noteq> []" "trim (category P) = category P"
    and "use_hash opts" "use_hash opts'" "prefix opts' = prefix opts"
    and "0 < getProductTTL cfg (ttl opts)"
    and "cacheProduct cfg P opts w = (Inr u, w1)"
  shows "(connected_now w1 \<and> next_command_ok w1 \<longrightarrow>
            fst (getCachedProduct (id' P) opts' w1) = Inr (Some P))
         \<and> (\<forall>r. fst (getCachedProduct (id' P) opts' w1) = Inr r \<longrightarrow> r = Some P)"
proof -
  from cacheProduct_success_post [OF assms(16,12,15)]
  obtain h t where h: "map_of (redis w1) (generateHashKey (id' P) (prefix opts')) = Some (HashValue h, t)"
    and f: "hash_field h ''id'' = toString (id' P)" "hash_field h ''name'' = name P"
      "hash_field h ''price'' = toString (price P)" "hash_field h ''category'' = category P"
    unfolding assms(14) by blast
  have P: "reconstructProductFromHash h = Inr P"
    using f assms(1-11) by (rule reconstruct_roundtrip)
  have ne: "h \<noteq> []"
    using f(2) assms(8) by (auto simp: hash_field_def)
  have healthy: "fst (getCachedProduct (id' P) opts' w1) = Inr (Some P)"
    if "connected_now w1" "next_command_ok w1"
  proof -
    from getCachedProduct_operation_hash_hit [OF that assms(13) h ne P]
    obtain w2 where "getCachedProduct_operation (id' P) opts' w1 = (Inr (Some P), w2)" by blast
    then show ?thesis
      by (simp add: getCachedProduct_def retry_first_success)
  qed
  have returned: "r = Some P" if "fst (getCachedProduct (id' P) opts' w1) = Inr r" for r
  proof -
    from that obtain w2 where "getCachedProduct (id' P) opts' w1 = (Inr r, w2)"
      by (cases "getCachedProduct (id' P) opts' w1") auto
    then have "\<exists>v. redis v = redis w1 \<and> getCachedProduct_operation (id' P) opts' v = (Inr r, w2)"
      unfolding getCachedProduct_def
      by (rule retry_success_same_redis) (rule getCachedProduct_operation_redis)
    then obtain v where v: "redis v = redis w1"
      "getCachedProduct_operation (id' P) opts' v = (Inr r, w2)" by blast
    from v(2) assms(13) h [folded v(1)] ne
    have "\<exists>p. reconstructProductFromHash h = Inr p \<and> r = Some p"
      by (rule getCachedProduct_operation_hash_result)
    with P show ?thesis by simp
  qed
  from healthy returned show ?thesis by blast
qed

theorem C1_hash_roundtrip_witness:
  "fst (getCachedProduct (id' widget) no_options
         (snd (cacheProduct default_cacheConfig widget no_options empty_world))) = Inr (Some widget)"
proof -
  let ?w1 = "snd (cacheProduct default_cacheConfig widget no_options empty_world)"
  have put: "cacheProduct default_cacheConfig widget no_options empty_world = (Inr (), ?w1)"
    by code_simp
  have env: "connected_now ?w1 \<and> next_command_ok ?w1"
    by code_simp
  have valid: "is_number (id' widget)" "is_integer (id' widget)" "\<not> le_zero (id' widget)"
    "below_1e21 (id' widget)" "is_number (price widget)" "is_finite (price widget)"
    "\<not> lt_zero (price widget)" "name widget \<noteq> []" "trim (name widget) = name widget"
    "category widget \<noteq> []" "trim (category widget) = category widget"
    "use_hash no_options" "prefix no_options = prefix no_options"
    "0 < getProductTTL default_cacheConfig (ttl no_options)"
    by code_simp+
  from C1_hash_roundtrip [OF valid(1-12) valid(12,13,14) put] env
  show ?thesis by blast
qed

text \<open>
  The claim as stated, for every positive integer id, fails at the id \<open>10^21\<close>: it is
  printed as \<^verbatim>\<open>1e+21\<close>, which \<^verbatim>\<open>parseInt\<close> reads as 1, so the product read back has
  another id.
\<close>

theorem C1_hash_roundtrip_counterexample:
  "is_number (id' huge_id_product) \<and> is_integer (id' huge_id_product)
   \<and> \<not> le_zero (id' huge_id_product)
   \<and> is_number (price huge_id_product) \<and> is_finite (price huge_id_product)
   \<and> \<not> lt_zero (price huge_id_product)
   \<and> name huge_id_product \<noteq> [] \<and> trim (name huge_id_product) = name huge_id_product
   \<and> category huge_id_product \<noteq> [] \<and> trim (category huge_id_product) = category huge_id_product
   \<and> toString (id' huge_id_product) = ''1e+21''
   \<and> fst (cacheProduct default_cacheConfig huge_id_product hash_mode empty_world) = Inr ()
   \<and> fst (getCachedProduct (id' huge_id_product) hash_mode
         (snd (cacheProduct default_cacheConfig huge_id_product hash_mode empty_world)))
       = Inr (Some (huge_id_product\<lparr>id' := Finite False ''1'' 1\<rparr>))
   \<and> fst (getCachedProduct (id' huge_id_product) hash_mode
         (snd (cacheProduct default_cacheConfig huge_id_product hash_mode empty_world)))
       \<noteq> Inr (Some huge_id_product)"
  by code_simp

section \<open>Retry exhaustion\<close>

text \<open>
  Claim C3. For an operation that fails on every attempt, \<open>executeWithRetry\<close> under the
  default policy runs the operation exactly four times: on the initial state, then after a
  sleep of 100 ms, of 200 ms and of 400 ms (each retry is counted and the failure before it
  is logged). After the fourth failure it increments the error counter and raises a
  \<open>CacheOperationError\<close> that names the operation and wraps the last underlying error. For
  an operation that leaves the sleep record or the counters alone, the sleeps recorded are
  100, 200, 400, the error counter grows by one and the retry counter by three.
\<close>

theorem C3_retry_exhaustion:
  assumes "\<And>v. \<exists>e. fst (operation v) = Inl e"
  shows "\<exists>e1 e2 e3 e4 v1 v2 v3 v4.
      operation w = (Inl e1, v1)
    \<and> operation (delay 100 (updateStats False False True
         (write_console (Warn (attempt_message retryConfig operationName 0 e1)) v1))) = (Inl e2, v2)
    \<and> operation (delay 200 (updateStats False False True
         (write_console (Warn (attempt_message retryConfig operationName 1 e2)) v2))) = (Inl e3, v3)
    \<and> operation (delay 400 (updateStats False False True
         (write_console (Warn (attempt_message retryConfig operationName 2 e3)) v3))) = (Inl e4, v4)
    \<and> executeWithRetry operation operationName w =
         (Inl (CacheOperationError
                 (''Operation '' @ operationName @ '' failed after 3 retries: '' @ message e4)
                 operationName e4),
          updateStats False True False v4)
    \<and> errors (stats (updateStats False True False v4)) = errors (stats v4) + 1
    \<and> ((\<forall>v. sleeps (snd (operation v)) = sleeps v) \<longrightarrow>
          sleeps (snd (executeWithRetry operation operationName w)) = sleeps w @ [100, 200, 400])
    \<and> ((\<forall>v. stats (snd (operation v)) = stats v) \<longrightarrow>
          errors (stats (snd (executeWithRetry operation operationName w))) = errors (stats w) + 1
        \<and> retries (stats (snd (executeWithRetry operation operationName w))) = retries (stats w) + 3)"
proof -
  let ?next = "\<lambda>ms n e v. delay ms (updateStats False False True
                 (write_console (Warn (attempt_message retryConfig operationName n e)) v))"
  have fails: "\<exists>e v1. operation v = (Inl e, v1)" for v
    using assms [of v] by (cases "operation v") auto
  obtain e1 v1 where a1: "operation w = (Inl e1, v1)"
    using fails by blast
  obtain e2 v2 where a2: "operation (?next 100 0 e1 v1) = (Inl e2, v2)"
    using fails by blast
  obtain e3 v3 where a3: "operation (?next 200 1 e2 v2) = (Inl e3, v3)"
    using fails by blast
  obtain e4 v4 where a4: "operation (?next 400 2 e3 v3) = (Inl e4, v4)"
    using fails by blast
  have "executeWithRetry operation operationName w =
          executeWithRetry_from retryConfig operation operationName 1 100 (Some e1)
            (write_console (Warn (attempt_message retryConfig operationName 0 e1)) v1)"
    unfolding executeWithRetry_def
    using a1 by (subst retry_step_failed [where e = e1 and ?v1.0 = v1]) (simp_all add: retryConfig_def numeral_2_eq_2 numeral_3_eq_3)
  also have "\<dots> = executeWithRetry_from retryConfig operation operationName 2 200 (Some e2)
            (write_console (Warn (attempt_message retryConfig operationName 1 e2)) v2)"
    using a2 by (subst retry_step_failed [where e = e2 and ?v1.0 = v2]) (simp_all add: retryConfig_def numeral_2_eq_2 numeral_3_eq_3)
  also have "\<dots> = executeWithRetry_from retryConfig operation operationName 3 400 (Some e3)
            (write_console (Warn (attempt_message retryConfig operationName 2 e3)) v3)"
    using a3 by (subst retry_step_failed [where e = e3 and ?v1.0 = v3]) (simp_all add: retryConfig_def numeral_2_eq_2 numeral_3_eq_3)
  also have "\<dots> = (Inl (CacheOperationError (failure_message retryConfig operationName e4)
                        operationName e4), updateStats False True False v4)"
    using a4 by (subst retry_step_last [where e = e4 and ?v1.0 = v4]) (simp_all add: retryConfig_def numeral_2_eq_2 numeral_3_eq_3)
  finally have run: "executeWithRetry operation operationName w =
      (Inl (CacheOperationError
              (''Operation '' @ operationName @ '' failed after 3 retries: '' @ message e4)
              operationName e4),
       updateStats False True False v4)"
    by (simp add: failure_message_def retryConfig_def nat_digits.simps digit_char_def)
  have err: "errors (stats (updateStats False True False v4)) = errors (stats v4) + 1"
    by (simp add: updated_stats_def Let_def)
  have sl: "sleeps (snd (executeWithRetry operation operationName w)) = sleeps w @ [100, 200, 400]"
    if "\<forall>v. sleeps (snd (operation v)) = sleeps v"
  proof -
    from that have k: "sleeps v' = sleeps v" if "operation v = (r, v')" for v r v'
      using that by (metis snd_conv)
    show ?thesis
      using k [OF a1] k [OF a2] k [OF a3] k [OF a4] by (simp add: run)
  qed
  have st: "errors (stats (snd (executeWithRetry operation operationName w))) = errors (stats w) + 1
        \<and> retries (stats (snd (executeWithRetry operation operationName w))) = retries (stats w) + 3"
    if "\<forall>v. stats (snd (operation v)) = stats v"
  proof -
    from that have k: "stats v' = stats v" if "operation v = (r, v')" for v r v'
      using that by (metis snd_conv)
    show ?thesis
      using k [OF a1] k [OF a2] k [OF a3] k [OF a4]
      by (simp add: run updated_stats_def Let_def)
  qed
  from a1 a2 a3 a4 run err sl st show ?thesis by blast
qed

theorem C3_retry_exhaustion_witness:
  "sleeps (snd (executeWithRetry failing_operation ''op'' five_readings)) = [100, 200, 400]
   \<and> errors (stats (snd (executeWithRetry failing_operation ''op'' five_readings))) = 1
   \<and> retries (stats (snd (executeWithRetry failing_operation ''op'' five_readings))) = 3
   \<and> clock (snd (executeWithRetry failing_operation ''op'' five_readings)) = [''t5'']
   \<and> fst (executeWithRetry failing_operation ''op'' five_readings) =
       Inl (CacheOperationError ''Operation op failed after 3 retries: t4'' ''op'' (Error ''t4''))"
proof -
  have fails: "\<exists>e. fst (failing_operation v) = Inl e" for v
    by (simp add: failing_operation_def and_then_def now_ISO_def throw_def split: list.splits)
  have frame: "\<forall>v. sleeps (snd (failing_operation v)) = sleeps v"
    "\<forall>v. stats (snd (failing_operation v)) = stats v"
    by (simp_all add: failing_operation_def and_then_def now_ISO_def throw_def split: list.splits)
  have start: "sleeps five_readings = []" "errors (stats five_readings) = 0"
    "retries (stats five_readings) = 0"
    by (simp_all add: five_readings_def empty_world_def initial_stats_def)
  have rest: "clock (snd (executeWithRetry failing_operation ''op'' five_readings)) = [''t5'']
     \<and> fst (executeWithRetry failing_operation ''op'' five_readings) =
       Inl (CacheOperationError ''Operation op failed after 3 retries: t4'' ''op'' (Error ''t4''))"
    by code_simp
  from C3_retry_exhaustion [of failing_operation five_readings "''op''", OF fails] frame start rest
  show ?thesis by auto
qed

section \<open>Malformed hashes and the operations counter\<close>

text \<open>
  Claim C4 (the code differs). A hash whose id does not parse is present for product 7.
  \<open>getCachedProduct\<close> does not report a miss, but the error it raises is the generic
  \<open>CacheOperationError\<close> of the retry wrapper around a plain \<open>Error\<close>, raised after four
  attempts (each counted as a hit) and the three sleeps; \<open>CacheDataError\<close> is never raised.
\<close>

theorem C4_malformed_hash_generic_error:
  "fst (getCachedProduct (Finite False ''7'' 1) hash_mode corrupt_id_world) =
     Inl (CacheOperationError
            ''Operation getCachedProduct failed after 3 retries: Invalid product hash data: invalid ID''
            ''getCachedProduct'' (Error ''Invalid product hash data: invalid ID''))
   \<and> sleeps (snd (getCachedProduct (Finite False ''7'' 1) hash_mode corrupt_id_world)) = [100, 200, 400]
   \<and> hits (stats (snd (getCachedProduct (Finite False ''7'' 1) hash_mode corrupt_id_world))) = 4"
  by code_simp

lemma operations_updated_stats [simp]:
  "operations (updated_stats h e r s) = operations s + 1"
  by (simp add: updated_stats_def Let_def)

lemma getCachedProduct_operation_counts:
  assumes "getCachedProduct_operation i opts w = (Inr r, w1)"
  shows "operations (stats w1) = operations (stats w) + 1"
  using assms
  by (auto simp: getCachedProduct_operation_def io_Inr Let_def split: if_splits option.splits)

lemma getCachedProducts_operation_counts:
  assumes "getCachedProducts_operation k opts w = (Inr r, w1)"
  shows "operations (stats w1) = operations (stats w) + 1"
  using assms
  by (auto simp: getCachedProducts_operation_def io_Inr Let_def split: if_splits option.splits)

text \<open>
  Claim C5, as amended. A call of \<open>getCachedProduct\<close> or \<open>getCachedProducts\<close> whose first
  attempt succeeds, with a hit or with a miss, increments the operations counter exactly
  once.
\<close>

theorem C5_operations_once_without_retry:
  "(fst (getCachedProduct_operation i opts w) = Inr r \<longrightarrow>
      operations (stats (snd (getCachedProduct i opts w))) = operations (stats w) + 1)
   \<and> (fst (getCachedProducts_operation k opts w) = Inr rs \<longrightarrow>
      operations (stats (snd (getCachedProducts k opts w))) = operations (stats w) + 1)"
proof (intro conjI impI)
  assume "fst (getCachedProduct_operation i opts w) = Inr r"
  then obtain w1 where op: "getCachedProduct_operation i opts w = (Inr r, w1)"
    by (cases "getCachedProduct_operation i opts w") auto
  then have "getCachedProduct i opts w = (Inr r, w1)"
    unfolding getCachedProduct_def by (rule retry_first_success)
  with getCachedProduct_operation_counts [OF op]
  show "operations (stats (snd (getCachedProduct i opts w))) = operations (stats w) + 1"
    by simp
next
  assume "fst (getCachedProducts_operation k opts w) = Inr rs"
  then obtain w1 where op: "getCachedProducts_operation k opts w = (Inr rs, w1)"
    by (cases "getCachedProducts_operation k opts w") auto
  then have "getCachedProducts k opts w = (Inr rs, w1)"
    unfolding getCachedProducts_def by (rule retry_first_success)
  with getCachedProducts_operation_counts [OF op]
  show "operations (stats (snd (getCachedProducts k opts w))) = operations (stats w) + 1"
    by simp
qed

theorem C5_operations_once_without_retry_witness:
  "operations (stats (snd (getCachedProduct (id' widget) no_options empty_world))) = 1
   \<and> operations (stats (snd (getCachedProducts ''products:list:1:10::'' no_options empty_world))) = 1"
proof -
  have first: "fst (getCachedProduct_operation (id' widget) no_options empty_world) = Inr None"
    "fst (getCachedProducts_operation ''products:list:1:10::'' no_options empty_world) = Inr None"
    by code_simp+
  have start: "operations (stats empty_world) = 0"
    by (simp add: empty_world_def initial_stats_def)
  from C5_operations_once_without_retry [of "id' widget" no_options empty_world None
      "''products:list:1:10::''" None] first start
  show ?thesis by simp
qed

text \<open>
  The claim as stated, for every outcome, fails when an attempt is retried: one call whose
  first backend command fails and whose second attempt is a miss increments the counter
  twice.
\<close>

theorem C5_operations_once_counterexample:
  "operations (stats one_fault_world) = 0
   \<and> fst (getCachedProduct (id' widget) hash_mode one_fault_world) = Inr None
   \<and> operations (stats (snd (getCachedProduct (id' widget) hash_mode one_fault_world))) = 2"
  by code_simp

section \<open>Invalidation of a single product\<close>

lemma del_keys_map_of:
  "map_of (snd (del_keys ks s)) k = (if k \<in> set ks then None else map_of s k)"
proof (induction ks arbitrary: s)
  case Nil
  show ?case by (simp add: del_keys.simps)
next
  case (Cons a ks)
  show ?case
  proof (cases "map_of s a")
    case None
    with Cons [of s] show ?thesis by (auto simp: del_keys.simps)
  next
    case (Some e)
    with Cons [of "AList.delete a s"] show ?thesis
      by (auto simp: del_keys.simps delete_conv' split: prod.splits)
  qed
qed

lemma invalidateProduct_operation_Inr:
  "invalidateProduct_operation i opts v = (Inr u, w1) \<Longrightarrow>
     redis w1 = snd (del_keys [generateHashKey i (prefix opts),
                               generateKey (''single:'' @ toString i) (prefix opts)] (redis v))"
  by (auto simp: invalidateProduct_operation_def io_Inr Let_def redis_del_def)

lemma env_updates [simp]:
  "connected_now (w\<lparr>faults := f\<rparr>) = connected_now w"
  "connected_now (w\<lparr>redis := s\<rparr>) = connected_now w"
  "connected_now (w\<lparr>clock := c\<rparr>) = connected_now w"
  "connected_now (w\<lparr>stats := st\<rparr>) = connected_now w"
  "connected_now (updateStats h e r w) = connected_now w"
  "connected_now (write_console l w) = connected_now w"
  "connected_now (delay ms w) = connected_now w"
  "next_command_ok (w\<lparr>connection := cn\<rparr>) = next_command_ok w"
  "next_command_ok (w\<lparr>redis := s\<rparr>) = next_command_ok w"
  "next_command_ok (w\<lparr>clock := c\<rparr>) = next_command_ok w"
  "next_command_ok (w\<lparr>stats := st\<rparr>) = next_command_ok w"
  "next_command_ok (updateStats h e r w) = next_command_ok w"
  "next_command_ok (write_console l w) = next_command_ok w"
  "next_command_ok (delay ms w) = next_command_ok w"
  by (simp_all add: connected_now_def next_command_ok_def)

lemma invalidateProduct_operation_healthy:
  assumes "connected_now w" "next_command_ok w"
  shows "\<exists>w1. invalidateProduct_operation i opts w = (Inr (), w1) \<and> faults w1 = tl (faults w)"
proof -
  obtain n s where "del_keys [generateHashKey i (prefix opts),
      generateKey (''single:'' @ toString i) (prefix opts)] (redis w) = (n, s)"
    by (cases "del_keys [generateHashKey i (prefix opts),
      generateKey (''single:'' @ toString i) (prefix opts)] (redis w)")
  with assms show ?thesis
    by (simp add: invalidateProduct_operation_def io_Inr Let_def redis_del_def)
qed

lemma getCachedProduct_operation_absent_result:
  assumes "getCachedProduct_operation i opts v = (Inr r, w2)"
    "map_of (redis v) (generateHashKey i (prefix opts)) = None"
    "map_of (redis v) (generateKey (''single:'' @ toString i) (prefix opts)) = None"
  shows "r = None"
  using assms
  by (auto simp: getCachedProduct_operation_def io_Inr Let_def redis_hGetAll_def redis_get_def
      split: if_splits option.splits)

lemma getCachedProduct_operation_absent_miss:
  assumes "connected_now v" "next_command_ok v"
    "map_of (redis v) (generateHashKey i (prefix opts)) = None"
    "map_of (redis v) (generateKey (''single:'' @ toString i) (prefix opts)) = None"
  shows "\<exists>w2. getCachedProduct_operation i opts v = (Inr None, w2)"
  using assms
  by (simp add: getCachedProduct_operation_def io_Inr Let_def redis_hGetAll_def redis_get_def)

text \<open>
  Claim C6. With the connection up and no backend failure, \<open>invalidateProduct\<close> succeeds
  whether or not the keys exist, sends one backend command, and leaves the key space as
  one bulk delete of the hash key and the string key leaves it. Whenever
  \<open>invalidateProduct\<close> returns, both keys are absent, and \<open>getCachedProduct\<close> for the same
  id and prefix, in hash mode or in string mode and on the state that the invalidation left,
  yields a miss: it does so when the connection is up and the backend command does not fail,
  and whenever it returns at all what it returns is a miss.
\<close>

theorem C6_invalidate_then_miss:
  "(connected_now w \<and> next_command_ok w \<longrightarrow>
      fst (invalidateProduct i opts w) = Inr ()
    \<and> faults (snd (invalidateProduct i opts w)) = tl (faults w)
    \<and> redis (snd (invalidateProduct i opts w)) =
        snd (del_keys [generateHashKey i (prefix opts),
                       generateKey (''single:'' @ toString i) (prefix opts)] (redis w)))
   \<and> (\<forall>w1. invalidateProduct i opts w = (Inr (), w1) \<and> prefix opts' = prefix opts \<longrightarrow>
        map_of (redis w1) (generateHashKey i (prefix opts)) = None
      \<and> map_of (redis w1) (generateKey (''single:'' @ toString i) (prefix opts)) = None
      \<and> (connected_now w1 \<and> next_command_ok w1 \<longrightarrow>
            fst (getCachedProduct i opts' w1) = Inr None)
      \<and> (\<forall>r. fst (getCachedProduct i opts' w1) = Inr r \<longrightarrow> r = None))"
proof (intro conjI impI allI)
  let ?hk = "generateHashKey i (prefix opts)"
  let ?sk = "generateKey (''single:'' @ toString i) (prefix opts)"
  {
    assume "connected_now w \<and> next_command_ok w"
    then obtain w1 where op: "invalidateProduct_operation i opts w = (Inr (), w1)"
      and f: "faults w1 = tl (faults w)"
      using invalidateProduct_operation_healthy by blast
    from op have run: "invalidateProduct i opts w = (Inr (), w1)"
      unfolding invalidateProduct_def by (rule retry_first_success)
    show "fst (invalidateProduct i opts w) = Inr ()" by (simp add: run)
    show "faults (snd (invalidateProduct i opts w)) = tl (faults w)" by (simp add: run f)
    show "redis (snd (invalidateProduct i opts w)) = snd (del_keys [?hk, ?sk] (redis w))"
      using invalidateProduct_operation_Inr [OF op] by (simp add: run)
  }
  fix w1
  assume a: "invalidateProduct i opts w = (Inr (), w1) \<and> prefix opts' = prefix opts"
  then obtain v where "invalidateProduct_operation i opts v = (Inr (), w1)"
    unfolding invalidateProduct_def by (blast dest: retry_success_some_attempt)
  from invalidateProduct_operation_Inr [OF this]
  show hk: "map_of (redis w1) ?hk = None" and sk: "map_of (redis w1) ?sk = None"
    by (simp_all add: del_keys_map_of)
  {
    assume "connected_now w1 \<and> next_command_ok w1"
    with hk sk a obtain w2 where "getCachedProduct_operation i opts' w1 = (Inr None, w2)"
      using getCachedProduct_operation_absent_miss [of w1 i opts'] by auto
    then show "fst (getCachedProduct i opts' w1) = Inr None"
      by (simp add: getCachedProduct_def retry_first_success)
  }
  fix r
  assume "fst (getCachedProduct i opts' w1) = Inr r"
  then obtain w2 where "getCachedProduct i opts' w1 = (Inr r, w2)"
    by (cases "getCachedProduct i opts' w1") auto
  then have "\<exists>v. redis v = redis w1 \<and> getCachedProduct_operation i opts' v = (Inr r, w2)"
    unfolding getCachedProduct_def
    by (rule retry_success_same_redis) (rule getCachedProduct_operation_redis)
  then obtain v where "redis v = redis w1" "getCachedProduct_operation i opts' v = (Inr r, w2)"
    by blast
  with hk sk a show "r = None"
    using getCachedProduct_operation_absent_result [of i opts' v r w2] by simp
qed

theorem C6_invalidate_then_miss_witness:
  "fst (getCachedProduct (id' widget) hash_mode
          (snd (invalidateProduct (id' widget) no_options both_cached_world))) = Inr None
   \<and> fst (getCachedProduct (id' widget) string_mode
          (snd (invalidateProduct (id' widget) no_options both_cached_world))) = Inr None
   \<and> redis (snd (invalidateProduct (id' widget) no_options both_cached_world)) = []
   \<and> fst (invalidateProduct (id' widget) no_options empty_world) = Inr ()"
proof -
  let ?w1 = "snd (invalidateProduct (id' widget) no_options both_cached_world)"
  have env: "connected_now both_cached_world \<and> next_command_ok both_cached_world"
    "connected_now empty_world \<and> next_command_ok empty_world"
    by code_simp+
  note first = C6_invalidate_then_miss [of both_cached_world "id' widget" no_options, THEN conjunct1,
      rule_format, OF env(1)]
  then have run: "invalidateProduct (id' widget) no_options both_cached_world = (Inr (), ?w1)"
    by (cases "invalidateProduct (id' widget) no_options both_cached_world") simp
  have env1: "connected_now ?w1 \<and> next_command_ok ?w1"
    by code_simp
  have modes: "prefix hash_mode = prefix no_options" "prefix string_mode = prefix no_options"
    by code_simp+
  have store: "snd (del_keys [generateHashKey (id' widget) (prefix no_options),
                 generateKey (''single:'' @ toString (id' widget)) (prefix no_options)]
                 (redis both_cached_world)) = []"
    by code_simp
  from C6_invalidate_then_miss [of both_cached_world "id' widget" no_options hash_mode,
      THEN conjunct2, rule_format, of ?w1] run modes(1) env1
  have h: "fst (getCachedProduct (id' widget) hash_mode ?w1) = Inr None" by blast
  from C6_invalidate_then_miss [of both_cached_world "id' widget" no_options string_mode,
      THEN conjunct2, rule_format, of ?w1] run modes(2) env1
  have s: "fst (getCachedProduct (id' widget) string_mode ?w1) = Inr None" by blast
  from C6_invalidate_then_miss [of empty_world "id' widget" no_options, THEN conjunct1,
      rule_format, OF env(2)]
  have e: "fst (invalidateProduct (id' widget) no_options empty_world) = Inr ()" by blast
  from h s e first store show ?thesis by simp
qed

section \<open>Partial updates of a hash\<close>

lemma and_then_Inl:
  "and_then m f w = (Inl e, w1) \<longleftrightarrow>
     m w = (Inl e, w1) \<or> (\<exists>y v. m w = (Inr y, v) \<and> f y v = (Inl e, w1))"
  by (auto simp: and_then_def split: prod.splits sum.splits)

lemma no_failure [simp]:
  "succeed x w \<noteq> (Inl e, w1)" "effect f w \<noteq> (Inl e, w1)" "now_ISO w \<noteq> (Inl e, w1)"
  by (auto simp: succeed_def effect_def now_ISO_def split: list.splits)

lemma client_Inl_redis: "client cmd w = (Inl e, w1) \<Longrightarrow> redis w1 = redis w"
  by (auto simp: client_def Let_def split: list.splits option.splits sum.splits prod.splits)

lemma ensureConnection_Inl_redis: "ensureConnection w = (Inl e, w1) \<Longrightarrow> redis w1 = redis w"
  by (auto simp: ensureConnection_def isClientConnected_def and_then_def succeed_def throw_def
      split: list.splits if_splits)

lemma updateProductHash_operation_failed:
  assumes "updateProductHash_operation i partial opts v = (Inl e, v1)"
  shows "redis v1 = redis v"
  using assms
  by (auto simp: updateProductHash_operation_def and_then_Inl io_Inr Let_def
      dest: client_Inl_redis ensureConnection_Inl_redis split: if_splits)

lemma hash_updates_fields:
  "map fst (hash_updates partial c) =
     (case name_opt partial of None \<Rightarrow> [] | Some n \<Rightarrow> [''name''])
     @ (case price_opt partial of None \<Rightarrow> [] | Some p \<Rightarrow> [''price''])
     @ (case category_opt partial of None \<Rightarrow> [] | Some c \<Rightarrow> [''category''])
     @ [''cachedAt'']"
  by (simp add: hash_updates_def split: option.splits)

lemma hash_updates_nonempty [simp]: "hash_updates partial c \<noteq> []"
  by (simp add: hash_updates_def)


lemma updateProductHash_success:
  assumes "updateProductHash i partial opts w = (Inr u, w1)"
  shows "\<exists>c n. redis_hSet (generateHashKey i (prefix opts)) (hash_updates partial c) (redis w)
           = Inr (n, redis w1)"
proof -
  from assms have "\<exists>v. redis v = redis w \<and> updateProductHash_operation i partial opts v = (Inr u, w1)"
    unfolding updateProductHash_def
  proof (rule retry_success [where I = "\<lambda>v. redis v = redis w"], goal_cases)
    case (2 v e v1)
    then show ?case using updateProductHash_operation_failed [of i partial opts v e v1] by simp
  qed simp_all
  then obtain v where v: "redis v = redis w"
    and op: "updateProductHash_operation i partial opts v = (Inr u, w1)" by blast
  from op obtain c n s
    where "redis_hSet (generateHashKey i (prefix opts)) (hash_updates partial c) (redis v) = Inr (n, s)"
      and "redis w1 = s"
    by (auto simp: updateProductHash_operation_def io_Inr Let_def split: if_splits)
  with v show ?thesis by auto
qed





section \<open>Updating the hash of an absent entry\<close>

lemma set_fields_fresh: "set_fields (hash_updates partial c) [] = hash_updates partial c"
  by (simp add: set_fields_def hash_updates_def split: option.splits)

lemma hash_updates_no_id: "''id'' \<notin> set (map fst (hash_updates partial c))"
  by (simp add: hash_updates_fields split: option.splits)

lemma reconstruct_without_id:
  "reconstructProductFromHash (hash_updates partial c) =
     Inl (Error ''Invalid product hash data: missing required fields'')"
proof -
  have "map_of (hash_updates partial c) ''id'' = None"
    using hash_updates_no_id [of partial c] by (simp add: map_of_eq_None_iff)
  then show ?thesis
    by (simp add: reconstructProductFromHash_def hash_field_def)
qed

lemma getCachedProduct_operation_hash_failed:
  assumes "connected_now v" "next_command_ok v" "use_hash opts"
    "map_of (redis v) (generateHashKey i (prefix opts)) = Some (HashValue h, t)" "h \<noteq> []"
    "reconstructProductFromHash h = Inl e"
  shows "getCachedProduct_operation i opts v =
           (Inl e, write_console (Log (''Cache hit for product '' @ toString i @ '' (hash)''))
                     (updateStats True False False
                        (v\<lparr>connection := tl (connection v), faults := tl (faults v)\<rparr>)))"
proof -
  have c: "ensureConnection v = (Inr (), v\<lparr>connection := tl (connection v)\<rparr>)"
    using assms(1) by (simp add: ensureConnection_Inr)
  have g: "client (redis_hGetAll (generateHashKey i (prefix opts))) (v\<lparr>connection := tl (connection v)\<rparr>)
             = (Inr h, v\<lparr>connection := tl (connection v), faults := tl (faults v)\<rparr>)"
    using assms(2,4) by (simp add: client_Inr redis_hGetAll_def)
  show ?thesis
    using assms(3,5,6)
    by (simp add: getCachedProduct_operation_def Let_def and_then_def c g effect_def
        lift_result_def throw_def)
qed


text \<open>
  Claim C10. The fields that \<open>updateProductHash\<close> writes never include \<open>id\<close>. When the
  hash entry of the id is absent and \<open>updateProductHash\<close> returns, the entry exists and
  holds exactly the supplied fields and \<open>cachedAt\<close>, with no \<open>id\<close> field and no time to
  live. A hash-mode \<open>getCachedProduct\<close> for that id, on the state the update left, then
  fails with the wrapper's \<open>CacheOperationError\<close> whatever the environment does, never
  returning a miss or an entity; with the connection up and no backend failure the error
  wrapped is the one for missing required fields.
\<close>

theorem C10_update_creates_unreadable_entry:
  "''id'' \<notin> set (map fst (hash_updates partial cachedAt))
   \<and> (\<forall>w1. map_of (redis w) (generateHashKey i (prefix opts)) = None
          \<and> updateProductHash i partial opts w = (Inr (), w1)
          \<and> use_hash opts' \<and> prefix opts' = prefix opts \<longrightarrow>
        (\<exists>c. map_of (redis w1) (generateHashKey i (prefix opts)) =
                Some (HashValue (hash_updates partial c), None)
            \<and> map_of (hash_updates partial c) ''id'' = None)
      \<and> (\<exists>m e. fst (getCachedProduct i opts' w1) = Inl (CacheOperationError m ''getCachedProduct'' e))
      \<and> (connection w1 = [] \<and> faults w1 = [] \<longrightarrow>
            fst (getCachedProduct i opts' w1) =
              Inl (CacheOperationError
                ''Operation getCachedProduct failed after 3 retries: Invalid product hash data: missing required fields''
                ''getCachedProduct''
                (Error ''Invalid product hash data: missing required fields''))))"
proof (intro conjI allI impI)
  show "''id'' \<notin> set (map fst (hash_updates partial cachedAt))"
    by (rule hash_updates_no_id)
next
  fix w1
  let ?hk = "generateHashKey i (prefix opts)"
  let ?missing = "Error ''Invalid product hash data: missing required fields''"
  assume a: "map_of (redis w) ?hk = None \<and> updateProductHash i partial opts w = (Inr (), w1)
          \<and> use_hash opts' \<and> prefix opts' = prefix opts"
  then have absent: "map_of (redis w) ?hk = None"
    and run: "updateProductHash i partial opts w = (Inr (), w1)"
    and mode: "use_hash opts'" and pfx: "prefix opts' = prefix opts"
    by blast+
  from updateProductHash_success [OF run] obtain c k
    where set: "redis_hSet ?hk (hash_updates partial c) (redis w) = Inr (k, redis w1)" by blast
  from redis_hSet_Inr [OF set] obtain h0 t0
    where m: "map_of (redis w1) = (map_of (redis w))(?hk \<mapsto>
               (HashValue (set_fields (hash_updates partial c) h0), t0))"
      and old: "map_of (redis w) ?hk = None \<and> h0 = [] \<and> t0 = None
               \<or> map_of (redis w) ?hk = Some (HashValue h0, t0)"
    by blast
  from old absent have "h0 = []" "t0 = None" by simp_all
  with m have entry: "map_of (redis w1) ?hk = Some (HashValue (hash_updates partial c), None)"
    by (simp add: set_fields_fresh)
  have noid: "map_of (hash_updates partial c) ''id'' = None"
    using hash_updates_no_id [of partial c] by (simp add: map_of_eq_None_iff)
  from entry noid
  show "\<exists>c. map_of (redis w1) ?hk = Some (HashValue (hash_updates partial c), None)
            \<and> map_of (hash_updates partial c) ''id'' = None"
    by blast
  from entry pfx
  have key: "map_of (redis w1) (generateHashKey i (prefix opts')) =
      Some (HashValue (hash_updates partial c), None)"
    by simp
  have bad: "reconstructProductFromHash (hash_updates partial c) = Inl ?missing"
    by (rule reconstruct_without_id)
  obtain res w2 where get: "getCachedProduct i opts' w1 = (res, w2)"
    by (cases "getCachedProduct i opts' w1")
  show "\<exists>m e. fst (getCachedProduct i opts' w1) = Inl (CacheOperationError m ''getCachedProduct'' e)"
  proof (cases res)
    case (Inr r)
    with get have "\<exists>v. redis v = redis w1 \<and> getCachedProduct_operation i opts' v = (Inr r, w2)"
      unfolding getCachedProduct_def
      by (intro retry_success_same_redis [where x = r and ?w1.0 = w2])
         (simp_all add: getCachedProduct_operation_redis)
    then obtain v where v: "redis v = redis w1"
      "getCachedProduct_operation i opts' v = (Inr r, w2)" by blast
    from key v(1) have key': "map_of (redis v) (generateHashKey i (prefix opts')) =
      Some (HashValue (hash_updates partial c), None)" by simp
    from getCachedProduct_operation_hash_result [OF v(2) mode key' hash_updates_nonempty] bad
    show ?thesis by simp
  next
    case (Inl e)
    with get retry_error_kind [of "getCachedProduct_operation i opts'" "''getCachedProduct''" w1 e w2]
    show ?thesis by (auto simp: getCachedProduct_def)
  qed
  assume env: "connection w1 = [] \<and> faults w1 = []"
  let ?I = "\<lambda>v. redis v = redis w1 \<and> connection v = [] \<and> faults v = []"
  have "\<exists>e v. e = ?missing \<and> executeWithRetry (getCachedProduct_operation i opts') ''getCachedProduct'' w1 =
           (Inl (CacheOperationError (failure_message retryConfig ''getCachedProduct'' e)
                   ''getCachedProduct'' e), v)"
  proof (rule retry_failure [where I = ?I], goal_cases)
    case 1
    from env show ?case by simp
  next
    case (2 v)
    then have "connected_now v" "next_command_ok v"
      by (simp_all add: connected_now_def next_command_ok_def)
    from 2 key have key': "map_of (redis v) (generateHashKey i (prefix opts')) =
      Some (HashValue (hash_updates partial c), None)" by simp
    from getCachedProduct_operation_hash_failed [OF \<open>connected_now v\<close> \<open>next_command_ok v\<close>
        mode key' hash_updates_nonempty bad] 2
    show ?case by simp
  qed simp_all
  then show "fst (getCachedProduct i opts' w1) =
              Inl (CacheOperationError
                ''Operation getCachedProduct failed after 3 retries: Invalid product hash data: missing required fields''
                ''getCachedProduct'' ?missing)"
    by (auto simp: getCachedProduct_def failure_message_def retryConfig_def nat_digits.simps
        digit_char_def)
qed

theorem C10_update_creates_unreadable_entry_witness:
  "map_of (redis (snd (updateProductHash (id' widget) name_X no_options empty_world)))
      ''products_hash:7''
     = Some (HashValue [(''name'', ''X''), (''cachedAt'', ''1970-01-01T00:00:00.000Z'')], None)
   \<and> fst (getCachedProduct (id' widget) hash_mode
          (snd (updateProductHash (id' widget) name_X no_options empty_world))) =
       Inl (CacheOperationError
         ''Operation getCachedProduct failed after 3 retries: Invalid product hash data: missing required fields''
         ''getCachedProduct''
         (Error ''Invalid product hash data: missing required fields''))"
proof -
  let ?w1 = "snd (updateProductHash (id' widget) name_X no_options empty_world)"
  have given: "map_of (redis empty_world) (generateHashKey (id' widget) (prefix no_options)) = None
      \<and> updateProductHash (id' widget) name_X no_options empty_world = (Inr (), ?w1)
      \<and> use_hash hash_mode \<and> prefix hash_mode = prefix no_options"
    by code_simp
  have env: "connection ?w1 = [] \<and> faults ?w1 = []"
    by code_simp
  have entry: "map_of (redis ?w1) ''products_hash:7''
     = Some (HashValue [(''name'', ''X''), (''cachedAt'', ''1970-01-01T00:00:00.000Z'')], None)"
    by code_simp
  from C10_update_creates_unreadable_entry [of name_X "''t''" empty_world "id' widget" no_options
      hash_mode, THEN conjunct2, rule_format, OF given] env entry
  show ?thesis by blast
qed

section \<open>The hit rate\<close>










section \<open>The catalog service's guard around the cache\<close>

text \<open>
  What each operation of the catalog service does once the persistence layer has answered:
  the cache calls run inside a guard that turns their failure into a warning.
\<close>

lemma guarded_block:
  "and_then (try_catch m (\<lambda>e. effect (write_console (WarnWith msg e)))) (\<lambda>_. succeed x) w =
     (case m w of
        (Inl e, v) \<Rightarrow> (Inr x, write_console (WarnWith msg e) v)
      | (Inr u, v) \<Rightarrow> (Inr x, v))"
  by (simp add: and_then_def try_catch_def effect_def succeed_def split: prod.splits sum.splits)

lemma persisted [simp]: "and_then (lift_result (Inr x)) f w = f x w"
  by (simp add: and_then_def lift_result_def succeed_def)

lemma try_catch_returned: "m w = (Inr x, v) \<Longrightarrow> try_catch m h w = (Inr x, v)"
  by (simp add: try_catch_def)

lemma createProduct_persisted:
  assumes "repo_insert repo d = Inr savedProduct"
  shows "createProduct cfg repo d w =
     (case and_then (cacheProduct (cacheConfig cfg) savedProduct hash_mode)
             (\<lambda>_. invalidateProductLists no_options) w of
        (Inl e, v) \<Rightarrow> (Inr savedProduct,
           write_console (WarnWith ''Cache operation failed during product creation:'' e) v)
      | (Inr u, v) \<Rightarrow> (Inr savedProduct, v))"
  unfolding createProduct_def
  by (subst try_catch_def) (simp add: assms guarded_block split: prod.splits sum.splits)


lemma read_phase:
  "try_catch (and_then m (\<lambda>found. case found of
                Some x \<Rightarrow> and_then (effect (write_console l)) (\<lambda>_. succeed (Some (f x)))
              | None \<Rightarrow> succeed None))
     (\<lambda>e. and_then (effect (write_console (WarnWith msg e))) (\<lambda>_. succeed None)) w =
   (case m w of
      (Inl e, v0) \<Rightarrow> (Inr None, write_console (WarnWith msg e) v0)
    | (Inr None, v) \<Rightarrow> (Inr None, v)
    | (Inr (Some x), v) \<Rightarrow> (Inr (Some (f x)), write_console l v))"
  by (simp add: and_then_def try_catch_def effect_def succeed_def
      split: prod.splits sum.splits option.splits)

lemma read_phase_unanswered:
  assumes "unanswered m msg w v"
  shows "try_catch (and_then m (\<lambda>found. case found of
                Some x \<Rightarrow> and_then (effect (write_console l)) (\<lambda>_. succeed (Some (f x)))
              | None \<Rightarrow> succeed None))
     (\<lambda>e. and_then (effect (write_console (WarnWith msg e))) (\<lambda>_. succeed None)) w = (Inr None, v)"
  using assms unfolding read_phase unanswered_def by auto

lemma read_phase_answered:
  assumes "m w = (Inr (Some x), v)"
  shows "try_catch (and_then m (\<lambda>found. case found of
                Some x \<Rightarrow> and_then (effect (write_console l)) (\<lambda>_. succeed (Some (f x)))
              | None \<Rightarrow> succeed None))
     (\<lambda>e. and_then (effect (write_console (WarnWith msg e))) (\<lambda>_. succeed None)) w
     = (Inr (Some (f x)), write_console l v)"
  using assms unfolding read_phase by simp

lemma read_outcomes:
  "(\<exists>x v. m w = (Inr (Some x), v)) \<or> (\<exists>v. unanswered m msg w v)"
  unfolding unanswered_def
  by (cases "m w"; cases "fst (m w)"; cases "projr (fst (m w))") auto

lemma guarded_logged_block:
  "and_then (try_catch (and_then m (\<lambda>_. effect (write_console l)))
       (\<lambda>e. effect (write_console (WarnWith msg e)))) (\<lambda>_. succeed x) w =
     (case m w of
        (Inl e, v) \<Rightarrow> (Inr x, write_console (WarnWith msg e) v)
      | (Inr u, v) \<Rightarrow> (Inr x, write_console l v))"
  by (simp add: and_then_def try_catch_def effect_def succeed_def split: prod.splits sum.splits)

lemmas query_defs = list_cache_key_def page_of_def actual_limit_def cached_response_def
  database_response_def page_rows_def list_write_options_def product_write_options_def

lemma getProducts_hit:
  assumes "getCachedProducts (list_cache_key cfg options) no_options w = (Inr (Some ps), v)"
  shows "getProducts cfg repo options w =
           (Inr (cached_response cfg options ps), write_console (Log ''Cache hit for product list'') v)"
  using assms
  by (simp add: getProducts_def Let_def query_defs try_catch_def and_then_def effect_def succeed_def)

lemma getProducts_miss:
  assumes "unanswered (getCachedProducts (list_cache_key cfg options) no_options)
             ''Cache read failed for product list:'' w v"
    and "repo_rows repo (truthy_filter (q_category options)) (truthy_filter (q_name options)) = Inr rows"
  shows "getProducts cfg repo options w =
     (case cacheProducts (cacheConfig cfg) (page_rows cfg options rows) (list_cache_key cfg options)
             (list_write_options cfg) v of
        (Inl e, v1) \<Rightarrow> (Inr (database_response cfg options rows),
           write_console (WarnWith ''Cache write failed for product list:'' e) v1)
      | (Inr u, v1) \<Rightarrow> (Inr (database_response cfg options rows),
           write_console (Log ''Cached product list'') v1))"
  using assms unfolding unanswered_def
  by (auto simp add: getProducts_def Let_def query_defs try_catch_def and_then_def effect_def
      succeed_def lift_result_def getManyAndCount_def split: prod.splits sum.splits)


lemma getProductById_hit:
  assumes "getCachedProduct i hash_mode w = (Inr (Some p), v)"
  shows "getProductById cfg repo i w =
           (Inr (Some p), write_console (Log (''Cache hit for product ID: '' @ toString i)) v)"
  using assms
  by (simp add: getProductById_def try_catch_def and_then_def effect_def succeed_def)

lemma getProductById_miss:
  assumes "unanswered (getCachedProduct i hash_mode)
             (''Cache read failed for product ID '' @ toString i @ '':'') w v"
    and "repo_findOne repo i = Inr found"
  shows "getProductById cfg repo i w =
     (case found of
        None \<Rightarrow> (Inr None, v)
      | Some p \<Rightarrow>
          (case cacheProduct (cacheConfig cfg) p (product_write_options cfg) v of
             (Inl e, v1) \<Rightarrow> (Inr (Some p),
                write_console (WarnWith (''Cache write failed for product ID '' @ toString i @ '':'') e) v1)
           | (Inr u, v1) \<Rightarrow> (Inr (Some p),
                write_console (Log (''Cached product ID: '' @ toString i)) v1)))"
  using assms unfolding unanswered_def
  by (auto simp add: getProductById_def query_defs try_catch_def and_then_def effect_def
      succeed_def lift_result_def split: prod.splits sum.splits option.splits)

lemma updateProduct_absent:
  assumes "repo_findOne repo i = Inr None"
  shows "updateProduct cfg repo i d w = (Inr None, w)"
  using assms
  by (simp add: updateProduct_def try_catch_def and_then_def succeed_def lift_result_def)

lemma updateProduct_persisted:
  assumes "repo_findOne repo i = Inr (Some p)" "repo_save repo (assign p d) = Inr updatedProduct"
  shows "updateProduct cfg repo i d w =
     (case and_then (updateProductHash i (as_partial updatedProduct) no_options)
             (\<lambda>_. invalidateProductLists no_options) w of
        (Inl e, v) \<Rightarrow> (Inr (Some updatedProduct),
           write_console (WarnWith ''Cache operation failed during product update:'' e) v)
      | (Inr u, v) \<Rightarrow> (Inr (Some updatedProduct), v))"
  unfolding updateProduct_def
  by (subst try_catch_def) (simp add: assms guarded_block split: prod.splits sum.splits)

lemma deleteProduct_persisted:
  assumes "repo_delete repo i = Inr affected"
  shows "deleteProduct cfg repo i w =
     (if deleted_rows affected then
        (case and_then (invalidateProduct i no_options) (\<lambda>_. invalidateProductLists no_options) w of
           (Inl e, v) \<Rightarrow> (Inr True,
              write_console (WarnWith ''Cache operation failed during product deletion:'' e) v)
         | (Inr u, v) \<Rightarrow> (Inr True, v))
      else (Inr False, w))"
  unfolding deleteProduct_def
  by (subst try_catch_def)
     (simp add: assms guarded_block deleted_rows_def succeed_def split: prod.splits sum.splits)


text \<open>
  Claim C2. In each of the five operations of the catalog service, once the persistence
  calls have succeeded the operation returns normally with its normal result, whatever the
  cache-engine calls inside it do: the product saved (create), the product from a cache hit
  or else what the persistence layer found (read by id), the response built from a cache hit
  or else from the rows of the persistence layer (list), the product saved, or nothing when
  there is none to update (update), and whether a row was deleted (delete). A cache call
  that fails changes the outcome in one way only: a warning carrying its error is written
  to the console, on top of the state in which the call failed.
\<close>

theorem C2_cache_failures_contained:
  "(repo_insert repo d = Inr savedProduct \<longrightarrow>
      fst (createProduct cfg repo d w) = Inr savedProduct
    \<and> (\<forall>e v. and_then (cacheProduct (cacheConfig cfg) savedProduct hash_mode)
                 (\<lambda>_. invalidateProductLists no_options) w = (Inl e, v) \<longrightarrow>
          snd (createProduct cfg repo d w) =
            write_console (WarnWith ''Cache operation failed during product creation:'' e) v))
   \<and> (repo_findOne repo i = Inr found \<longrightarrow>
        (\<exists>r. fst (getProductById cfg repo i w) = Inr r)
      \<and> (\<forall>p v. getCachedProduct i hash_mode w = (Inr (Some p), v) \<longrightarrow>
            fst (getProductById cfg repo i w) = Inr (Some p))
      \<and> (\<forall>v. unanswered (getCachedProduct i hash_mode)
                 (''Cache read failed for product ID '' @ toString i @ '':'') w v \<longrightarrow>
            fst (getProductById cfg repo i w) = Inr found
          \<and> (\<forall>p e v1. found = Some p
                \<and> cacheProduct (cacheConfig cfg) p (product_write_options cfg) v = (Inl e, v1) \<longrightarrow>
                snd (getProductById cfg repo i w) =
                  write_console (WarnWith (''Cache write failed for product ID '' @ toString i @ '':'') e) v1)))
   \<and> (repo_rows repo (truthy_filter (q_category options)) (truthy_filter (q_name options)) = Inr rows \<longrightarrow>
        (\<exists>r. fst (getProducts cfg repo options w) = Inr r)
      \<and> (\<forall>ps v. getCachedProducts (list_cache_key cfg options) no_options w = (Inr (Some ps), v) \<longrightarrow>
            fst (getProducts cfg repo options w) = Inr (cached_response cfg options ps))
      \<and> (\<forall>v. unanswered (getCachedProducts (list_cache_key cfg options) no_options)
                 ''Cache read failed for product list:'' w v \<longrightarrow>
            fst (getProducts cfg repo options w) = Inr (database_response cfg options rows)
          \<and> (\<forall>e v1. cacheProducts (cacheConfig cfg) (page_rows cfg options rows)
                        (list_cache_key cfg options) (list_write_options cfg) v = (Inl e, v1) \<longrightarrow>
                snd (getProducts cfg repo options w) =
                  write_console (WarnWith ''Cache write failed for product list:'' e) v1)))
   \<and> (repo_findOne repo i = Inr None \<longrightarrow> fst (updateProduct cfg repo i u w) = Inr None)
   \<and> (repo_findOne repo i = Inr (Some p0) \<and> repo_save repo (assign p0 u) = Inr updatedProduct \<longrightarrow>
        fst (updateProduct cfg repo i u w) = Inr (Some updatedProduct)
      \<and> (\<forall>e v. and_then (updateProductHash i (as_partial updatedProduct) no_options)
                   (\<lambda>_. invalidateProductLists no_options) w = (Inl e, v) \<longrightarrow>
            snd (updateProduct cfg repo i u w) =
              write_console (WarnWith ''Cache operation failed during product update:'' e) v))
   \<and> (repo_delete repo i = Inr affected \<longrightarrow>
        fst (deleteProduct cfg repo i w) = Inr (deleted_rows affected)
      \<and> (\<forall>e v. deleted_rows affected
              \<and> and_then (invalidateProduct i no_options)
                   (\<lambda>_. invalidateProductLists no_options) w = (Inl e, v) \<longrightarrow>
            snd (deleteProduct cfg repo i w) =
              write_console (WarnWith ''Cache operation failed during product deletion:'' e) v))"
proof (intro conjI)
  show "repo_insert repo d = Inr savedProduct \<longrightarrow>
      fst (createProduct cfg repo d w) = Inr savedProduct
    \<and> (\<forall>e v. and_then (cacheProduct (cacheConfig cfg) savedProduct hash_mode)
                 (\<lambda>_. invalidateProductLists no_options) w = (Inl e, v) \<longrightarrow>
          snd (createProduct cfg repo d w) =
            write_console (WarnWith ''Cache operation failed during product creation:'' e) v)"
    by (auto simp: createProduct_persisted split: prod.splits sum.splits)
next
  let ?read = "getCachedProduct i hash_mode"
  let ?msg = "''Cache read failed for product ID '' @ toString i @ '':''"
  show "repo_findOne repo i = Inr found \<longrightarrow>
        (\<exists>r. fst (getProductById cfg repo i w) = Inr r)
      \<and> (\<forall>p v. ?read w = (Inr (Some p), v) \<longrightarrow>
            fst (getProductById cfg repo i w) = Inr (Some p))
      \<and> (\<forall>v. unanswered ?read ?msg w v \<longrightarrow>
            fst (getProductById cfg repo i w) = Inr found
          \<and> (\<forall>p e v1. found = Some p
                \<and> cacheProduct (cacheConfig cfg) p (product_write_options cfg) v = (Inl e, v1) \<longrightarrow>
                snd (getProductById cfg repo i w) =
                  write_console (WarnWith (''Cache write failed for product ID '' @ toString i @ '':'') e) v1))"
  proof (intro impI conjI allI)
    assume f: "repo_findOne repo i = Inr found"
    have miss: "fst (getProductById cfg repo i w) = Inr found" if "unanswered ?read ?msg w v" for v
      by (simp add: getProductById_miss [OF that f] split: option.splits prod.splits sum.splits)
    from read_outcomes [of ?read w ?msg]
    show "\<exists>r. fst (getProductById cfg repo i w) = Inr r"
      by (auto simp: getProductById_hit miss)
    show "fst (getProductById cfg repo i w) = Inr (Some p)" if "?read w = (Inr (Some p), v)" for p v
      by (simp add: getProductById_hit [OF that])
    show "fst (getProductById cfg repo i w) = Inr found" if "unanswered ?read ?msg w v" for v
      by (rule miss [OF that])
    show "snd (getProductById cfg repo i w) =
            write_console (WarnWith (''Cache write failed for product ID '' @ toString i @ '':'') e) v1"
      if "unanswered ?read ?msg w v"
        "found = Some p \<and> cacheProduct (cacheConfig cfg) p (product_write_options cfg) v = (Inl e, v1)"
      for v p e v1
      using that(2) by (simp add: getProductById_miss [OF that(1) f])
  qed
next
  let ?read = "getCachedProducts (list_cache_key cfg options) no_options"
  let ?msg = "''Cache read failed for product list:''"
  show "repo_rows repo (truthy_filter (q_category options)) (truthy_filter (q_name options)) = Inr rows \<longrightarrow>
        (\<exists>r. fst (getProducts cfg repo options w) = Inr r)
      \<and> (\<forall>ps v. ?read w = (Inr (Some ps), v) \<longrightarrow>
            fst (getProducts cfg repo options w) = Inr (cached_response cfg options ps))
      \<and> (\<forall>v. unanswered ?read ?msg w v \<longrightarrow>
            fst (getProducts cfg repo options w) = Inr (database_response cfg options rows)
          \<and> (\<forall>e v1. cacheProducts (cacheConfig cfg) (page_rows cfg options rows)
                        (list_cache_key cfg options) (list_write_options cfg) v = (Inl e, v1) \<longrightarrow>
                snd (getProducts cfg repo options w) =
                  write_console (WarnWith ''Cache write failed for product list:'' e) v1))"
  proof (intro impI conjI allI)
    assume f: "repo_rows repo (truthy_filter (q_category options)) (truthy_filter (q_name options)) = Inr rows"
    have miss: "fst (getProducts cfg repo options w) = Inr (database_response cfg options rows)"
      if "unanswered ?read ?msg w v" for v
      by (simp add: getProducts_miss [OF that f] split: prod.splits sum.splits)
    from read_outcomes [of ?read w ?msg]
    show "\<exists>r. fst (getProducts cfg repo options w) = Inr r"
      by (auto simp: getProducts_hit miss)
    show "fst (getProducts cfg repo options w) = Inr (cached_response cfg options ps)"
      if "?read w = (Inr (Some ps), v)" for ps v
      by (simp add: getProducts_hit [OF that])
    show "fst (getProducts cfg repo options w) = Inr (database_response cfg options rows)"
      if "unanswered ?read ?msg w v" for v
      by (rule miss [OF that])
    show "snd (getProducts cfg repo options w) =
            write_console (WarnWith ''Cache write failed for product list:'' e) v1"
      if "unanswered ?read ?msg w v"
        "cacheProducts (cacheConfig cfg) (page_rows cfg options rows)
           (list_cache_key cfg options) (list_write_options cfg) v = (Inl e, v1)"
      for v e v1
      using that(2) by (simp add: getProducts_miss [OF that(1) f])
  qed
next
  show "repo_findOne repo i = Inr None \<longrightarrow> fst (updateProduct cfg repo i u w) = Inr None"
    by (simp add: updateProduct_absent)
next
  show "repo_findOne repo i = Inr (Some p0) \<and> repo_save repo (assign p0 u) = Inr updatedProduct \<longrightarrow>
        fst (updateProduct cfg repo i u w) = Inr (Some updatedProduct)
      \<and> (\<forall>e v. and_then (updateProductHash i (as_partial updatedProduct) no_options)
                   (\<lambda>_. invalidateProductLists no_options) w = (Inl e, v) \<longrightarrow>
            snd (updateProduct cfg repo i u w) =
              write_console (WarnWith ''Cache operation failed during product update:'' e) v)"
    by (auto simp: updateProduct_persisted split: prod.splits sum.splits)
next
  show "repo_delete repo i = Inr affected \<longrightarrow>
        fst (deleteProduct cfg repo i w) = Inr (deleted_rows affected)
      \<and> (\<forall>e v. deleted_rows affected
              \<and> and_then (invalidateProduct i no_options)
                   (\<lambda>_. invalidateProductLists no_options) w = (Inl e, v) \<longrightarrow>
            snd (deleteProduct cfg repo i w) =
              write_console (WarnWith ''Cache operation failed during product deletion:'' e) v)"
    by (auto simp: deleteProduct_persisted split: prod.splits sum.splits)
qed

end
